theory Spec2Isabelle
  imports
    Complex_Main
    "HOL-Library.Word"
    "HOL-Library.FSet"
    "HOL-Library.Char_ord"
    "HOL-Library.List_Lexorder"
begin

unbundle bit_operations_syntax

section \<open>Resume data storage in a relational store (dbresumedatastorage.cpp)\<close>

text \<open>
  A shallow embedding of \<^verbatim>\<open>src/base/bittorrent/dbresumedatastorage.cpp\<close>.
  A \<^verbatim>\<open>QString\<close> and a \<^verbatim>\<open>QByteArray\<close> are character lists, a
  \<^verbatim>\<open>TorrentID\<close> is the string \<^verbatim>\<open>toString\<close> gives (so
  \<^verbatim>\<open>fromString\<close> is the identity), tables are lists of rows in rowid order, and
  every statement the driver may refuse is a branch of the model.
\<close>

subsection \<open>Strings\<close>

type_synonym QString = string
type_synonym QByteArray = string
type_synonym TorrentID = string
type_synonym Path = string

text \<open>\<^verbatim>\<open>QStringList::join(sep)\<close>.\<close>

fun join_str :: "char \<Rightarrow> QString list \<Rightarrow> QString" where
  "join_str sep [] = []"
| "join_str sep [x] = x"
| "join_str sep (x # y # ys) = x @ sep # join_str sep (y # ys)"

text \<open>\<^verbatim>\<open>QString::split(sep)\<close> with the default \<^verbatim>\<open>Qt::KeepEmptyParts\<close>: the empty string
  splits into one empty part.\<close>

fun split_str :: "char \<Rightarrow> QString \<Rightarrow> QString list" where
  "split_str sep [] = [[]]"
| "split_str sep (c # cs) =
     (if c = sep then [] # split_str sep cs
      else (case split_str sep cs of
              [] \<Rightarrow> [[c]]
            | w # ws \<Rightarrow> (c # w) # ws))"

subsection \<open>The descriptor\<close>

text \<open>
  The enumerations are declared in headers of the repository that this file includes
  (\<^verbatim>\<open>torrent.h\<close>, \<^verbatim>\<open>torrentcontentlayout.h\<close>); the file names the enumerators
  \<^verbatim>\<open>Original\<close>, \<^verbatim>\<open>AutoManaged\<close>, \<^verbatim>\<open>None\<close> and \<^verbatim>\<open>FilesChecked\<close>.
  \<^verbatim>\<open>Utils::String::fromEnum\<close> gives the enumerator's name and
  \<^verbatim>\<open>Utils::String::toEnum\<close> the enumerator of a name, or the given default.
\<close>

datatype TorrentContentLayout = Original | Subfolder | NoSubfolder
datatype TorrentOperatingMode = AutoManaged | Forced
datatype StopCondition = NoStopCondition | MetadataReceived | FilesChecked

fun fromEnum_ContentLayout :: "TorrentContentLayout \<Rightarrow> QString" where
  "fromEnum_ContentLayout Original = ''Original''"
| "fromEnum_ContentLayout Subfolder = ''Subfolder''"
| "fromEnum_ContentLayout NoSubfolder = ''NoSubfolder''"

definition toEnum_ContentLayout :: "QString \<Rightarrow> TorrentContentLayout \<Rightarrow> TorrentContentLayout" where
  "toEnum_ContentLayout s dflt =
     (if s = ''Original'' then Original
      else if s = ''Subfolder'' then Subfolder
      else if s = ''NoSubfolder'' then NoSubfolder
      else dflt)"

fun fromEnum_OperatingMode :: "TorrentOperatingMode \<Rightarrow> QString" where
  "fromEnum_OperatingMode AutoManaged = ''AutoManaged''"
| "fromEnum_OperatingMode Forced = ''Forced''"

definition toEnum_OperatingMode :: "QString \<Rightarrow> TorrentOperatingMode \<Rightarrow> TorrentOperatingMode" where
  "toEnum_OperatingMode s dflt =
     (if s = ''AutoManaged'' then AutoManaged
      else if s = ''Forced'' then Forced
      else dflt)"

fun fromEnum_StopCondition :: "StopCondition \<Rightarrow> QString" where
  "fromEnum_StopCondition NoStopCondition = ''None''"
| "fromEnum_StopCondition MetadataReceived = ''MetadataReceived''"
| "fromEnum_StopCondition FilesChecked = ''FilesChecked''"

definition toEnum_StopCondition :: "QString \<Rightarrow> StopCondition \<Rightarrow> StopCondition" where
  "toEnum_StopCondition s dflt =
     (if s = ''None'' then NoStopCondition
      else if s = ''MetadataReceived'' then MetadataReceived
      else if s = ''FilesChecked'' then FilesChecked
      else dflt)"

text \<open>
  libtorrent's \<^verbatim>\<open>entry\<close> and \<^verbatim>\<open>bdecode_node\<close> are trees; a dictionary is kept as
  its key-ordered list of pairs, as \<^verbatim>\<open>std::map\<close> iterates it.
\<close>

datatype entry =
    EInt int
  | EStr string
  | EList "entry list"
  | EDict "(string \<times> entry) list"
  | EUndefined

type_synonym bdecode_node = entry
type_synonym dictionary_type = "(string \<times> entry) list"
type_synonym error_code = nat

datatype torrent_info = TorrentInfo bdecode_node

text \<open>\<^verbatim>\<open>lt::torrent_flags\<close>: bits 4, 5 and 10 of a 64-bit field.\<close>

type_synonym torrent_flags_t = "64 word"

definition paused :: torrent_flags_t where
  "paused = push_bit 4 1"

definition auto_managed :: torrent_flags_t where
  "auto_managed = push_bit 5 1"

definition stop_when_ready :: torrent_flags_t where
  "stop_when_ready = push_bit 10 1"

text \<open>\<^verbatim>\<open>if (flags & f)\<close>: the flag field has a bit of \<open>f\<close>.\<close>

definition has_flag :: "torrent_flags_t \<Rightarrow> torrent_flags_t \<Rightarrow> bool" where
  "has_flag flags f = (flags AND f \<noteq> 0)"

text \<open>\<^verbatim>\<open>lt::add_torrent_params\<close>: the three fields this file reads or writes, and the rest
  of the descriptor as one value.\<close>

record add_torrent_params =
  flags :: torrent_flags_t
  save_path :: string
  ti :: "torrent_info option"
  lt_rest :: entry

record LoadTorrentParams =
  ltAddTorrentParams :: add_torrent_params
  name :: QString
  category :: QString
  tags :: "QString fset"
  savePath :: Path
  downloadPath :: Path
  contentLayout :: TorrentContentLayout
  operatingMode :: TorrentOperatingMode
  useAutoTMM :: bool
  firstLastPiecePriority :: bool
  hasFinishedStatus :: bool
  stopped :: bool
  stopCondition :: StopCondition
  ratioLimit :: real
  seedingTimeLimit :: int

subsection \<open>What the file takes from outside\<close>

text \<open>
  The functions of libtorrent and of \<^verbatim>\<open>Profile\<close> that the file calls are parameters.
  \<^verbatim>\<open>bdecode\<close> and \<^verbatim>\<open>read_resume_data\<close> are the overloads that report through an
  \<^verbatim>\<open>error_code\<close> (0 is success) and return a value in every case.
  \<open>fl\<close> rounds the exact result of a floating-point operation to a \<^verbatim>\<open>double\<close>, and
  \<open>int_cast_overflow\<close> is what \<^verbatim>\<open>static_cast<int>\<close> gives where C++ leaves it open
  (a truncated value outside the range of \<^verbatim>\<open>int\<close>).
\<close>

record env =
  toPortablePath :: "Path \<Rightarrow> Path"
  fromPortablePath :: "Path \<Rightarrow> Path"
  write_resume_data :: "add_torrent_params \<Rightarrow> dictionary_type"
  bencode :: "entry \<Rightarrow> QByteArray"
  bdecode :: "QByteArray \<Rightarrow> error_code \<times> bdecode_node"
  read_resume_data :: "bdecode_node \<Rightarrow> error_code \<times> add_torrent_params"
  fl :: "real \<Rightarrow> real"
  int_cast_overflow :: "real \<Rightarrow> int"

text \<open>The values a \<^verbatim>\<open>double\<close> can hold (finite ones).\<close>

definition is_double :: "real \<Rightarrow> bool" where
  "is_double x = (\<exists>(m::int) (e::int). \<bar>m\<bar> < 2 ^ 53 \<and> - 1074 \<le> e \<and> e \<le> 971 \<and> x = of_int m * 2 powi e)"

text \<open>Rounding leaves a representable value as it is.\<close>

definition exact_on_doubles :: "(real \<Rightarrow> real) \<Rightarrow> bool" where
  "exact_on_doubles r = (\<forall>x. is_double x \<longrightarrow> r x = x)"

text \<open>\<^verbatim>\<open>static_cast<int>(x)\<close>: truncation towards zero.\<close>

definition truncate_real :: "real \<Rightarrow> int" where
  "truncate_real x = (if 0 \<le> x then \<lfloor>x\<rfloor> else \<lceil>x\<rceil>)"

definition static_cast_int :: "env \<Rightarrow> real \<Rightarrow> int" where
  "static_cast_int E x =
     (let t = truncate_real x
      in if - (2 ^ 31) \<le> t \<and> t < 2 ^ 31 then t else int_cast_overflow E x)"

subsection \<open>The tables\<close>

text \<open>
  A row of \<^verbatim>\<open>torrents\<close>, one field for each column of \<^verbatim>\<open>createDB\<close>, typed by the
  column's declaration: a column that may be \<^verbatim>\<open>NULL\<close> is an option.
\<close>

record torrents_row =
  col_id :: nat
  col_torrent_id :: QString
  col_queue_position :: int
  col_name :: "QString option"
  col_category :: "QString option"
  col_tags :: "QString option"
  col_target_save_path :: "QString option"
  col_download_path :: "QString option"
  col_content_layout :: QString
  col_ratio_limit :: int
  col_seeding_time_limit :: int
  col_has_outer_pieces_priority :: bool
  col_has_seed_status :: bool
  col_operating_mode :: QString
  col_stopped :: bool
  col_stop_condition :: QString
  col_libtorrent_resume_data :: QByteArray
  col_metadata :: "QByteArray option"

datatype Column =
    DB_COLUMN_ID
  | DB_COLUMN_TORRENT_ID
  | DB_COLUMN_QUEUE_POSITION
  | DB_COLUMN_NAME
  | DB_COLUMN_CATEGORY
  | DB_COLUMN_TAGS
  | DB_COLUMN_TARGET_SAVE_PATH
  | DB_COLUMN_DOWNLOAD_PATH
  | DB_COLUMN_CONTENT_LAYOUT
  | DB_COLUMN_RATIO_LIMIT
  | DB_COLUMN_SEEDING_TIME_LIMIT
  | DB_COLUMN_HAS_OUTER_PIECES_PRIORITY
  | DB_COLUMN_HAS_SEED_STATUS
  | DB_COLUMN_OPERATING_MODE
  | DB_COLUMN_STOPPED
  | DB_COLUMN_STOP_CONDITION
  | DB_COLUMN_RESUMEDATA
  | DB_COLUMN_METADATA

text \<open>
  The store: the rows of \<^verbatim>\<open>meta\<close> (a name and its value as
  \<^verbatim>\<open>QVariant::toInt(&ok)\<close> reads it, \<open>None\<close> when \<open>ok\<close> is false), which of the
  columns and indexes added by later versions \<^verbatim>\<open>torrents\<close> has, and its rows.
\<close>

record database =
  meta :: "(QString \<times> int option) list"
  has_download_path :: bool
  has_stop_condition :: bool
  has_queue_position_index :: bool
  torrents :: "torrents_row list"

definition DB_VERSION :: int where
  "DB_VERSION = 4"

definition META_VERSION :: QString where
  "META_VERSION = ''version''"

text \<open>The statements the driver can refuse, and the errors the file throws.\<close>

datatype stmt =
    OpenDatabase
  | BeginTransaction
  | CommitTransaction
  | PragmaWAL
  | CreateTableMeta
  | PrepareInsertMetaVersion
  | ExecInsertMetaVersion
  | CreateTableTorrents
  | CreateQueuePositionIndex
  | CreateQueuePositionIndexIfNotExists
  | PrepareSelectDBVersion
  | ExecSelectDBVersion
  | TestDownloadPath
  | AlterAddDownloadPath
  | TestStopCondition
  | AlterAddStopCondition
  | PrepareUpdateMetaVersion
  | ExecUpdateMetaVersion
  | PrepareSelectTorrent
  | ExecSelectTorrent
  | ExecSelectTorrentIDs
  | ExecSelectAll
  | BencodeMetadata
  | PrepareInsertTorrent
  | ExecInsertTorrent
  | PrepareDeleteTorrent
  | ExecDeleteTorrent
  | PrepareUpdateQueuePos
  | ExecUpdateQueuePos nat

datatype RuntimeError =
    SqlError stmt
  | NotFound
  | DatabaseCorrupted

subsection \<open>Reading a row: \<^verbatim>\<open>parseQueryResultRow\<close>\<close>

text \<open>\<^verbatim>\<open>QVariant::toString\<close> and \<^verbatim>\<open>toByteArray\<close> of a column that may be
  \<^verbatim>\<open>NULL\<close>, and \<^verbatim>\<open>toInt\<close> of a 64-bit integer (it narrows to 32 bits).\<close>

definition toString :: "QString option \<Rightarrow> QString" where
  "toString v = (case v of None \<Rightarrow> [] | Some s \<Rightarrow> s)"

definition toByteArray :: "QByteArray option \<Rightarrow> QByteArray" where
  "toByteArray v = (case v of None \<Rightarrow> [] | Some s \<Rightarrow> s)"

definition toInt :: "int \<Rightarrow> int" where
  "toInt v = sint (word_of_int v :: 32 word)"

definition parse_tags :: "QString \<Rightarrow> QString fset" where
  "parse_tags tagsData =
     (if tagsData \<noteq> [] then fset_of_list (split_str CHR '','' tagsData) else {||})"

definition parseQueryResultRow :: "env \<Rightarrow> torrents_row \<Rightarrow> LoadTorrentParams" where
  "parseQueryResultRow E query =
     (let tagsData = toString (col_tags query);
          savePath' = fromPortablePath E (toString (col_target_save_path query));
          useAutoTMM' = (savePath' = []);
          bencodedResumeData = col_libtorrent_resume_data query;
          resumeDataRoot = snd (bdecode E bencodedResumeData);
          p0 = snd (read_resume_data E resumeDataRoot);
          bencodedMetadata = toByteArray (col_metadata query);
          p1 = (if bencodedMetadata \<noteq> []
                then p0\<lparr>ti := Some (TorrentInfo (snd (bdecode E bencodedMetadata)))\<rparr>
                else p0);
          p2 = p1\<lparr>save_path := fromPortablePath E (save_path p1)\<rparr>;
          legacy = has_flag (flags p2) stop_when_ready;
          p3 = (if legacy then p2\<lparr>flags := flags p2 AND NOT stop_when_ready\<rparr> else p2)
      in \<lparr> ltAddTorrentParams = p3,
           name = toString (col_name query),
           category = toString (col_category query),
           tags = parse_tags tagsData,
           savePath = savePath',
           downloadPath =
             (if \<not> useAutoTMM' then fromPortablePath E (toString (col_download_path query))
              else []),
           contentLayout = toEnum_ContentLayout (col_content_layout query) Original,
           operatingMode = toEnum_OperatingMode (col_operating_mode query) AutoManaged,
           useAutoTMM = useAutoTMM',
           firstLastPiecePriority = col_has_outer_pieces_priority query,
           hasFinishedStatus = col_has_seed_status query,
           stopped = col_stopped query,
           stopCondition =
             (if legacy then FilesChecked
              else toEnum_StopCondition (col_stop_condition query) NoStopCondition),
           ratioLimit = fl E (real_of_int (toInt (col_ratio_limit query)) / 1000),
           seedingTimeLimit = toInt (col_seeding_time_limit query) \<rparr>)"

subsection \<open>Synchronous reads\<close>

text \<open>\<^verbatim>\<open>ORDER BY queue_position\<close>: rows of equal position stay in rowid order.\<close>

definition order_by_queue_position :: "torrents_row list \<Rightarrow> torrents_row list" where
  "order_by_queue_position rows = sort_key col_queue_position rows"

definition registeredTorrents :: "stmt set \<Rightarrow> database \<Rightarrow> RuntimeError + TorrentID list" where
  "registeredTorrents faults db =
     (if ExecSelectTorrentIDs \<in> faults then Inl (SqlError ExecSelectTorrentIDs)
      else Inr (map col_torrent_id (order_by_queue_position (torrents db))))"

text \<open>\<^verbatim>\<open>SELECT * FROM torrents WHERE torrent_id = :torrent_id\<close> and
  \<^verbatim>\<open>query.next()\<close>: the first row of that identifier, if there is one.\<close>

definition select_torrent :: "torrents_row list \<Rightarrow> TorrentID \<Rightarrow> torrents_row option" where
  "select_torrent rows ident = find (\<lambda>r. col_torrent_id r = ident) rows"

text \<open>\<^verbatim>\<open>load\<close>: the error is the pair of the identifier and the caught
  \<^verbatim>\<open>RuntimeError\<close> that the message is made of.\<close>

definition load ::
  "env \<Rightarrow> stmt set \<Rightarrow> database \<Rightarrow> TorrentID \<Rightarrow> (TorrentID \<times> RuntimeError) + LoadTorrentParams" where
  "load E faults db ident =
     (if PrepareSelectTorrent \<in> faults then Inl (ident, SqlError PrepareSelectTorrent)
      else if ExecSelectTorrent \<in> faults then Inl (ident, SqlError ExecSelectTorrent)
      else (case select_torrent (torrents db) ident of
              None \<Rightarrow> Inl (ident, NotFound)
            | Some query \<Rightarrow> Inr (parseQueryResultRow E query)))"

subsection \<open>The jobs of the worker\<close>

text \<open>\<^verbatim>\<open>StoreJob::perform\<close>, first part: the copy of the native parameters with the
  portable save path and the adjusted flags.\<close>

definition StoreJob_params :: "env \<Rightarrow> LoadTorrentParams \<Rightarrow> add_torrent_params" where
  "StoreJob_params E m_resumeData =
     (let p0 = ltAddTorrentParams m_resumeData;
          p = p0\<lparr>save_path := toPortablePath E (save_path p0)\<rparr>
      in if stopped m_resumeData
         then p\<lparr>flags := (flags p OR paused) AND NOT auto_managed\<rparr>
         else if operatingMode m_resumeData = AutoManaged
         then p\<lparr>flags := flags p OR auto_managed\<rparr>
         else p\<lparr>flags := (flags p AND NOT paused) AND NOT auto_managed\<rparr>)"

definition StoreJob_columns :: "add_torrent_params \<Rightarrow> Column list" where
  "StoreJob_columns p =
     [DB_COLUMN_TORRENT_ID, DB_COLUMN_NAME, DB_COLUMN_CATEGORY, DB_COLUMN_TAGS,
      DB_COLUMN_TARGET_SAVE_PATH, DB_COLUMN_DOWNLOAD_PATH, DB_COLUMN_CONTENT_LAYOUT,
      DB_COLUMN_RATIO_LIMIT, DB_COLUMN_SEEDING_TIME_LIMIT,
      DB_COLUMN_HAS_OUTER_PIECES_PRIORITY, DB_COLUMN_HAS_SEED_STATUS,
      DB_COLUMN_OPERATING_MODE, DB_COLUMN_STOPPED, DB_COLUMN_STOP_CONDITION,
      DB_COLUMN_RESUMEDATA]
     @ (if ti p \<noteq> None then [DB_COLUMN_METADATA] else [])"

text \<open>The keys moved from the resume dictionary to the metadata dictionary; a key the
  dictionary lacks moves nothing.\<close>

definition metadata_keys :: "string list" where
  "metadata_keys = [''info'', ''creation date'', ''created by'', ''comment'']"

definition metadataDict :: "dictionary_type \<Rightarrow> dictionary_type" where
  "metadataDict dataDict = filter (\<lambda>kv. fst kv \<in> set metadata_keys) dataDict"

definition extracted :: "dictionary_type \<Rightarrow> dictionary_type" where
  "extracted dataDict = filter (\<lambda>kv. fst kv \<notin> set metadata_keys) dataDict"

definition bencodedMetadata :: "env \<Rightarrow> add_torrent_params \<Rightarrow> QByteArray" where
  "bencodedMetadata E p =
     (if ti p \<noteq> None then bencode E (EDict (metadataDict (write_resume_data E p))) else [])"

definition bencodedResumeData :: "env \<Rightarrow> add_torrent_params \<Rightarrow> QByteArray" where
  "bencodedResumeData E p =
     bencode E (EDict (if ti p \<noteq> None then extracted (write_resume_data E p)
                       else write_resume_data E p))"

definition bind_tags :: "QString fset \<Rightarrow> QString option" where
  "bind_tags ts = (if ts = {||} then None else Some (join_str CHR '','' (sorted_list_of_fset ts)))"

text \<open>
  The values bound to the placeholders of the statement, as a row: a placeholder with no
  bound value is \<^verbatim>\<open>NULL\<close>. The statement has no placeholder for \<^verbatim>\<open>id\<close> and
  \<^verbatim>\<open>queue_position\<close>; their fields here are never copied.
\<close>

definition StoreJob_values :: "env \<Rightarrow> TorrentID \<Rightarrow> LoadTorrentParams \<Rightarrow> torrents_row" where
  "StoreJob_values E m_torrentID m_resumeData =
     (let p = StoreJob_params E m_resumeData
      in \<lparr> col_id = 0,
           col_torrent_id = m_torrentID,
           col_queue_position = - 1,
           col_name = Some (name m_resumeData),
           col_category = Some (category m_resumeData),
           col_tags = bind_tags (tags m_resumeData),
           col_target_save_path =
             (if \<not> useAutoTMM m_resumeData then Some (toPortablePath E (savePath m_resumeData))
              else None),
           col_download_path =
             (if \<not> useAutoTMM m_resumeData
              then Some (toPortablePath E (downloadPath m_resumeData))
              else None),
           col_content_layout = fromEnum_ContentLayout (contentLayout m_resumeData),
           col_ratio_limit = static_cast_int E (fl E (ratioLimit m_resumeData * 1000)),
           col_seeding_time_limit = seedingTimeLimit m_resumeData,
           col_has_outer_pieces_priority = firstLastPiecePriority m_resumeData,
           col_has_seed_status = hasFinishedStatus m_resumeData,
           col_operating_mode = fromEnum_OperatingMode (operatingMode m_resumeData),
           col_stopped = stopped m_resumeData,
           col_stop_condition = fromEnum_StopCondition (stopCondition m_resumeData),
           col_libtorrent_resume_data = bencodedResumeData E p,
           col_metadata =
             (if bencodedMetadata E p \<noteq> [] then Some (bencodedMetadata E p) else None) \<rparr>)"

text \<open>\<^verbatim>\<open>SET (columns) = (values)\<close>: each listed column takes its value, no other
  column is touched.\<close>

fun copy_column :: "torrents_row \<Rightarrow> Column \<Rightarrow> torrents_row \<Rightarrow> torrents_row" where
  "copy_column v DB_COLUMN_ID r = r\<lparr>col_id := col_id v\<rparr>"
| "copy_column v DB_COLUMN_TORRENT_ID r = r\<lparr>col_torrent_id := col_torrent_id v\<rparr>"
| "copy_column v DB_COLUMN_QUEUE_POSITION r = r\<lparr>col_queue_position := col_queue_position v\<rparr>"
| "copy_column v DB_COLUMN_NAME r = r\<lparr>col_name := col_name v\<rparr>"
| "copy_column v DB_COLUMN_CATEGORY r = r\<lparr>col_category := col_category v\<rparr>"
| "copy_column v DB_COLUMN_TAGS r = r\<lparr>col_tags := col_tags v\<rparr>"
| "copy_column v DB_COLUMN_TARGET_SAVE_PATH r = r\<lparr>col_target_save_path := col_target_save_path v\<rparr>"
| "copy_column v DB_COLUMN_DOWNLOAD_PATH r = r\<lparr>col_download_path := col_download_path v\<rparr>"
| "copy_column v DB_COLUMN_CONTENT_LAYOUT r = r\<lparr>col_content_layout := col_content_layout v\<rparr>"
| "copy_column v DB_COLUMN_RATIO_LIMIT r = r\<lparr>col_ratio_limit := col_ratio_limit v\<rparr>"
| "copy_column v DB_COLUMN_SEEDING_TIME_LIMIT r = r\<lparr>col_seeding_time_limit := col_seeding_time_limit v\<rparr>"
| "copy_column v DB_COLUMN_HAS_OUTER_PIECES_PRIORITY r =
     r\<lparr>col_has_outer_pieces_priority := col_has_outer_pieces_priority v\<rparr>"
| "copy_column v DB_COLUMN_HAS_SEED_STATUS r = r\<lparr>col_has_seed_status := col_has_seed_status v\<rparr>"
| "copy_column v DB_COLUMN_OPERATING_MODE r = r\<lparr>col_operating_mode := col_operating_mode v\<rparr>"
| "copy_column v DB_COLUMN_STOPPED r = r\<lparr>col_stopped := col_stopped v\<rparr>"
| "copy_column v DB_COLUMN_STOP_CONDITION r = r\<lparr>col_stop_condition := col_stop_condition v\<rparr>"
| "copy_column v DB_COLUMN_RESUMEDATA r =
     r\<lparr>col_libtorrent_resume_data := col_libtorrent_resume_data v\<rparr>"
| "copy_column v DB_COLUMN_METADATA r = r\<lparr>col_metadata := col_metadata v\<rparr>"

definition set_columns :: "Column list \<Rightarrow> torrents_row \<Rightarrow> torrents_row \<Rightarrow> torrents_row" where
  "set_columns columns v r = fold (copy_column v) columns r"

text \<open>A row as \<^verbatim>\<open>INSERT\<close> starts it: the next rowid and the defaults of
  \<^verbatim>\<open>createDB\<close>; the columns declared \<^verbatim>\<open>NOT NULL\<close> with no default are all in the
  column list of the statement.\<close>

definition next_rowid :: "torrents_row list \<Rightarrow> nat" where
  "next_rowid rows = Suc (fold max (map col_id rows) 0)"

definition default_row :: "nat \<Rightarrow> torrents_row" where
  "default_row rowid =
     \<lparr> col_id = rowid, col_torrent_id = [], col_queue_position = - 1,
       col_name = None, col_category = None, col_tags = None,
       col_target_save_path = None, col_download_path = None,
       col_content_layout = [], col_ratio_limit = 0, col_seeding_time_limit = 0,
       col_has_outer_pieces_priority = False, col_has_seed_status = False,
       col_operating_mode = [], col_stopped = False, col_stop_condition = ''None'',
       col_libtorrent_resume_data = [], col_metadata = None \<rparr>"

text \<open>\<^verbatim>\<open>INSERT INTO torrents (columns) VALUES (values) ON CONFLICT (torrent_id) DO UPDATE
  SET (columns) = (values)\<close>.\<close>

definition upsert :: "Column list \<Rightarrow> torrents_row \<Rightarrow> torrents_row list \<Rightarrow> torrents_row list" where
  "upsert columns v rows =
     (if \<exists>r \<in> set rows. col_torrent_id r = col_torrent_id v
      then map (\<lambda>r. if col_torrent_id r = col_torrent_id v then set_columns columns v r else r) rows
      else rows @ [set_columns columns v (default_row (next_rowid rows))])"

text \<open>\<^verbatim>\<open>StoreJob::perform\<close>: the store after the job, and the statement whose failure was
  logged, if one failed.\<close>

definition StoreJob_perform ::
  "env \<Rightarrow> stmt set \<Rightarrow> TorrentID \<Rightarrow> LoadTorrentParams \<Rightarrow> database \<Rightarrow> database \<times> stmt option" where
  "StoreJob_perform E faults m_torrentID m_resumeData db =
     (let p = StoreJob_params E m_resumeData;
          columns = StoreJob_columns p
      in if ti p \<noteq> None \<and> BencodeMetadata \<in> faults then (db, Some BencodeMetadata)
         else if PrepareInsertTorrent \<in> faults then (db, Some PrepareInsertTorrent)
         else if ExecInsertTorrent \<in> faults then (db, Some ExecInsertTorrent)
         else (db\<lparr>torrents := upsert columns (StoreJob_values E m_torrentID m_resumeData)
                                 (torrents db)\<rparr>, None))"

definition RemoveJob_perform :: "stmt set \<Rightarrow> TorrentID \<Rightarrow> database \<Rightarrow> database \<times> stmt option" where
  "RemoveJob_perform faults m_torrentID db =
     (if PrepareDeleteTorrent \<in> faults then (db, Some PrepareDeleteTorrent)
      else if ExecDeleteTorrent \<in> faults then (db, Some ExecDeleteTorrent)
      else (db\<lparr>torrents := filter (\<lambda>r. col_torrent_id r \<noteq> m_torrentID) (torrents db)\<rparr>, None))"

text \<open>\<^verbatim>\<open>UPDATE torrents SET queue_position = :queue_position WHERE torrent_id = :torrent_id\<close>.\<close>

definition update_queue_position :: "TorrentID \<Rightarrow> int \<Rightarrow> torrents_row list \<Rightarrow> torrents_row list" where
  "update_queue_position torrentID pos rows =
     map (\<lambda>r. if col_torrent_id r = torrentID then r\<lparr>col_queue_position := pos\<rparr> else r) rows"

text \<open>The loop of \<^verbatim>\<open>StoreQueueJob::perform\<close> from position \<open>pos\<close>: the first statement
  that fails ends it, and the assignments made before stay.\<close>

fun store_queue_loop ::
  "stmt set \<Rightarrow> nat \<Rightarrow> TorrentID list \<Rightarrow> torrents_row list \<Rightarrow> torrents_row list \<times> stmt option" where
  "store_queue_loop faults pos [] rows = (rows, None)"
| "store_queue_loop faults pos (torrentID # m_queue) rows =
     (if ExecUpdateQueuePos pos \<in> faults then (rows, Some (ExecUpdateQueuePos pos))
      else store_queue_loop faults (Suc pos) m_queue
             (update_queue_position torrentID (int pos) rows))"

definition StoreQueueJob_perform ::
  "stmt set \<Rightarrow> TorrentID list \<Rightarrow> database \<Rightarrow> database \<times> stmt option" where
  "StoreQueueJob_perform faults m_queue db =
     (if PrepareUpdateQueuePos \<in> faults then (db, Some PrepareUpdateQueuePos)
      else (case store_queue_loop faults 0 m_queue (torrents db) of
              (rows, failed) \<Rightarrow> (db\<lparr>torrents := rows\<rparr>, failed)))"

text \<open>What the loop leaves in \<^verbatim>\<open>queue_position\<close> of a row of identifier \<open>t\<close> that held
  \<open>old\<close>, when no statement fails: the position of the last occurrence of \<open>t\<close> in the
  queue, counted from \<open>pos\<close>.\<close>

fun final_position :: "nat \<Rightarrow> TorrentID list \<Rightarrow> TorrentID \<Rightarrow> int \<Rightarrow> int" where
  "final_position pos [] t old = old"
| "final_position pos (torrentID # m_queue) t old =
     final_position (Suc pos) m_queue t (if torrentID = t then int pos else old)"

subsection \<open>Bulk load: \<^verbatim>\<open>doLoadAll\<close>\<close>

text \<open>What \<^verbatim>\<open>doLoadAll\<close> does that another thread can see, in order: taking and releasing
  the read lock (the constructor and the destructor of the \<^verbatim>\<open>QReadLocker\<close>), the two
  signals and the call of \<^verbatim>\<open>onResumeDataLoaded\<close> for each row.\<close>

datatype event =
    LockForRead
  | Unlock
  | loadStarted "TorrentID list"
  | onResumeDataLoaded TorrentID LoadTorrentParams
  | loadFinished

text \<open>The locker lives in the inner block: an exception thrown there releases the lock on
  the way out, and the block ends before \<^verbatim>\<open>loadFinished\<close> is emitted.\<close>

definition doLoadAll :: "env \<Rightarrow> stmt set \<Rightarrow> database \<Rightarrow> event list \<times> RuntimeError option" where
  "doLoadAll E faults db =
     (if OpenDatabase \<in> faults then ([], Some (SqlError OpenDatabase))
      else if ExecSelectTorrentIDs \<in> faults
      then ([LockForRead, Unlock], Some (SqlError ExecSelectTorrentIDs))
      else
        (let registered = map col_torrent_id (order_by_queue_position (torrents db))
         in if ExecSelectAll \<in> faults
            then ([LockForRead, loadStarted registered, Unlock], Some (SqlError ExecSelectAll))
            else ([LockForRead, loadStarted registered]
                  @ map (\<lambda>query. onResumeDataLoaded (col_torrent_id query)
                                    (parseQueryResultRow E query))
                      (order_by_queue_position (torrents db))
                  @ [Unlock, loadFinished], None)))"

text \<open>Each event of a trace with whether the read lock is held when it happens.\<close>

fun observe :: "bool \<Rightarrow> event list \<Rightarrow> (event \<times> bool) list" where
  "observe held [] = []"
| "observe held (LockForRead # es) = (LockForRead, held) # observe True es"
| "observe held (Unlock # es) = (Unlock, held) # observe False es"
| "observe held (e # es) = (e, held) # observe held es"

text \<open>The events a listener receives, and those among them that carry loaded data.\<close>

fun is_notification :: "event \<Rightarrow> bool" where
  "is_notification LockForRead = False"
| "is_notification Unlock = False"
| "is_notification e = True"

fun is_load_event :: "event \<Rightarrow> bool" where
  "is_load_event (loadStarted ids) = True"
| "is_load_event (onResumeDataLoaded ident resumeData) = True"
| "is_load_event e = False"

text \<open>Every event of a kind happens while the lock is held.\<close>

definition under_lock :: "(event \<Rightarrow> bool) \<Rightarrow> event list \<Rightarrow> bool" where
  "under_lock kind trace = list_all (\<lambda>eh. kind (fst eh) \<longrightarrow> snd eh) (observe False trace)"

definition acquisitions :: "event list \<Rightarrow> nat" where
  "acquisitions trace = length (filter (\<lambda>e. e = LockForRead) trace)"

subsection \<open>Opening the store\<close>

definition then_do :: "'e + 'a \<Rightarrow> ('a \<Rightarrow> 'e + 'b) \<Rightarrow> 'e + 'b" where
  "then_do r f = (case r of Inl e \<Rightarrow> Inl e | Inr x \<Rightarrow> f x)"

definition exec :: "stmt set \<Rightarrow> stmt \<Rightarrow> 'a \<Rightarrow> RuntimeError + 'a" where
  "exec faults s x = (if s \<in> faults then Inl (SqlError s) else Inr x)"

text \<open>\<^verbatim>\<open>createDB\<close> on the empty file. A failure of \<^verbatim>\<open>enableWALMode\<close> (the statement
  \<open>PragmaWAL\<close>) is caught and logged as a warning and changes nothing below; every other
  failure is thrown after the rollback.\<close>

definition createDB :: "stmt set \<Rightarrow> RuntimeError + database" where
  "createDB faults =
     then_do (exec faults BeginTransaction ()) (\<lambda>_.
     then_do (exec faults CreateTableMeta ()) (\<lambda>_.
     then_do (exec faults PrepareInsertMetaVersion ()) (\<lambda>_.
     then_do (exec faults ExecInsertMetaVersion [(META_VERSION, Some DB_VERSION)]) (\<lambda>m.
     then_do (exec faults CreateTableTorrents ()) (\<lambda>_.
     then_do (exec faults CreateQueuePositionIndex ()) (\<lambda>_.
     exec faults CommitTransaction
       \<lparr> meta = m, has_download_path = True, has_stop_condition = True,
         has_queue_position_index = True, torrents = [] \<rparr>))))))"

definition currentDBVersion :: "stmt set \<Rightarrow> database \<Rightarrow> RuntimeError + int" where
  "currentDBVersion faults db =
     then_do (exec faults PrepareSelectDBVersion ()) (\<lambda>_.
     then_do (exec faults ExecSelectDBVersion ()) (\<lambda>_.
       (case find (\<lambda>row. fst row = META_VERSION) (meta db) of
          None \<Rightarrow> Inl DatabaseCorrupted
        | Some row \<Rightarrow>
            (case snd row of
               None \<Rightarrow> Inl DatabaseCorrupted
             | Some dbVersion \<Rightarrow> Inr dbVersion))))"

text \<open>The steps of \<^verbatim>\<open>updateDB\<close>. The test query fails when the column is not there;
  \<^verbatim>\<open>ALTER TABLE ... ADD\<close> fails when it is. An added column holds its default in
  every row.\<close>

definition add_download_path :: "stmt set \<Rightarrow> database \<Rightarrow> RuntimeError + database" where
  "add_download_path faults db =
     (if has_download_path db \<and> TestDownloadPath \<notin> faults then Inr db
      else if has_download_path db \<or> AlterAddDownloadPath \<in> faults
      then Inl (SqlError AlterAddDownloadPath)
      else Inr (db\<lparr>has_download_path := True,
                   torrents := map (\<lambda>r. r\<lparr>col_download_path := None\<rparr>) (torrents db)\<rparr>))"

definition add_stop_condition :: "stmt set \<Rightarrow> database \<Rightarrow> RuntimeError + database" where
  "add_stop_condition faults db =
     (if has_stop_condition db \<and> TestStopCondition \<notin> faults then Inr db
      else if has_stop_condition db \<or> AlterAddStopCondition \<in> faults
      then Inl (SqlError AlterAddStopCondition)
      else Inr (db\<lparr>has_stop_condition := True,
                   torrents := map (\<lambda>r. r\<lparr>col_stop_condition := ''None''\<rparr>) (torrents db)\<rparr>))"

text \<open>\<^verbatim>\<open>UPDATE meta SET (name, value) = (:name, :value)\<close> has no \<^verbatim>\<open>WHERE\<close>: it
  rewrites every row of \<^verbatim>\<open>meta\<close>, and two rows of one name break the
  \<^verbatim>\<open>UNIQUE\<close> constraint.\<close>

definition update_meta_version :: "stmt set \<Rightarrow> database \<Rightarrow> RuntimeError + database" where
  "update_meta_version faults db =
     then_do (exec faults PrepareUpdateMetaVersion ()) (\<lambda>_.
       if ExecUpdateMetaVersion \<in> faults \<or> 2 \<le> length (meta db)
       then Inl (SqlError ExecUpdateMetaVersion)
       else Inr (db\<lparr>meta := map (\<lambda>_. (META_VERSION, Some DB_VERSION)) (meta db)\<rparr>))"

text \<open>\<^verbatim>\<open>updateDB\<close>, with \<^verbatim>\<open>Q_ASSERT\<close> compiled out as in a release build.\<close>

definition updateDB :: "stmt set \<Rightarrow> int \<Rightarrow> database \<Rightarrow> RuntimeError + database" where
  "updateDB faults fromVersion db =
     then_do (exec faults BeginTransaction db) (\<lambda>db.
     then_do (if fromVersion = 1 then add_download_path faults db else Inr db) (\<lambda>db.
     then_do (if fromVersion \<le> 2 then add_stop_condition faults db else Inr db) (\<lambda>db.
     then_do (if fromVersion \<le> 3
              then exec faults CreateQueuePositionIndexIfNotExists
                     (db\<lparr>has_queue_position_index := True\<rparr>)
              else Inr db) (\<lambda>db.
     then_do (update_meta_version faults db) (\<lambda>db.
     exec faults CommitTransaction db)))))"

text \<open>The version the constructor works with for a file that was there.\<close>

definition dbVersion :: "stmt set \<Rightarrow> database \<Rightarrow> RuntimeError + int" where
  "dbVersion faults db =
     (if \<not> has_download_path db then Inr 1 else currentDBVersion faults db)"

text \<open>The constructor, up to the start of the worker; \<open>None\<close> is a path with no file.\<close>

definition DBResumeDataStorage :: "stmt set \<Rightarrow> database option \<Rightarrow> RuntimeError + database" where
  "DBResumeDataStorage faults file =
     then_do (exec faults OpenDatabase ()) (\<lambda>_.
       (case file of
          None \<Rightarrow> createDB faults
        | Some db \<Rightarrow>
            then_do (dbVersion faults db) (\<lambda>v.
              if v < DB_VERSION then updateDB faults v db else Inr db)))"

text \<open>The stored schema version: the value of the \<^verbatim>\<open>version\<close> row of \<^verbatim>\<open>meta\<close>.\<close>

definition stored_version :: "database \<Rightarrow> int option" where
  "stored_version db =
     (case find (\<lambda>row. fst row = META_VERSION) (meta db) of
        None \<Rightarrow> None
      | Some row \<Rightarrow> snd row)"

subsection \<open>Concrete inputs for the examples\<close>

text \<open>
  An environment to run the definitions on: paths are portable as they are, the resume
  dictionary holds the flags and the save path (and the metadata under \<^verbatim>\<open>info\<close>), a
  dictionary is written as the list of its keys, the empty byte string does not decode,
  and the byte string \<^verbatim>\<open>L\<close> decodes to a descriptor with the legacy flag.
\<close>

definition default_params :: add_torrent_params where
  "default_params = \<lparr> flags = 0, save_path = [], ti = None, lt_rest = EUndefined \<rparr>"

definition example_write :: "add_torrent_params \<Rightarrow> dictionary_type" where
  "example_write p =
     [(''flags'', EInt (uint (flags p)))]
     @ (case ti p of None \<Rightarrow> [] | Some (TorrentInfo n) \<Rightarrow> [(''info'', n)])
     @ [(''save_path'', EStr (save_path p))]"

definition example_bencode :: "entry \<Rightarrow> QByteArray" where
  "example_bencode e = (case e of EDict d \<Rightarrow> concat (map fst d) | _ \<Rightarrow> ''?'')"

definition example_bdecode :: "QByteArray \<Rightarrow> error_code \<times> bdecode_node" where
  "example_bdecode b = (if b = [] then (1, EUndefined) else (0, EStr b))"

definition example_read :: "bdecode_node \<Rightarrow> error_code \<times> add_torrent_params" where
  "example_read n =
     (case n of
        EStr s \<Rightarrow>
          (0, default_params\<lparr>flags := (if s = ''L'' then stop_when_ready OR paused else paused)\<rparr>)
      | _ \<Rightarrow> (1, default_params))"

definition example_env :: env where
  "example_env =
     \<lparr> toPortablePath = (\<lambda>p. p), fromPortablePath = (\<lambda>p. p),
       write_resume_data = example_write, bencode = example_bencode,
       bdecode = example_bdecode, read_resume_data = example_read,
       fl = (\<lambda>x. x), int_cast_overflow = (\<lambda>x. 0) \<rparr>"

definition example_descriptor :: LoadTorrentParams where
  "example_descriptor =
     \<lparr> ltAddTorrentParams = default_params,
       name = ''T1'', category = ''c'', tags = {|''x'', ''y''|},
       savePath = ''/d'', downloadPath = ''/t'',
       contentLayout = Original, operatingMode = AutoManaged, useAutoTMM = False,
       firstLastPiecePriority = False, hasFinishedStatus = False, stopped = False,
       stopCondition = NoStopCondition, ratioLimit = 3 / 2, seedingTimeLimit = 60 \<rparr>"

definition example_row :: torrents_row where
  "example_row =
     \<lparr> col_id = 1, col_torrent_id = ''a'', col_queue_position = 7,
       col_name = Some ''old'', col_category = None, col_tags = None,
       col_target_save_path = None, col_download_path = None,
       col_content_layout = ''Original'', col_ratio_limit = 0, col_seeding_time_limit = 0,
       col_has_outer_pieces_priority = False, col_has_seed_status = False,
       col_operating_mode = ''Forced'', col_stopped = True,
       col_stop_condition = ''MetadataReceived'',
       col_libtorrent_resume_data = ''L'', col_metadata = Some ''m'' \<rparr>"

definition example_db :: "torrents_row list \<Rightarrow> database" where
  "example_db rows =
     \<lparr> meta = [(META_VERSION, Some DB_VERSION)], has_download_path = True,
       has_stop_condition = True, has_queue_position_index = True, torrents = rows \<rparr>"

text \<open>A store as version 1 left it: no \<^verbatim>\<open>download_path\<close> and
  \<^verbatim>\<open>stop_condition\<close> columns, no index.\<close>

definition v1_db :: database where
  "v1_db = \<lparr> meta = [(META_VERSION, Some 1)], has_download_path = False,
             has_stop_condition = False, has_queue_position_index = False,
             torrents = [example_row] \<rparr>"

text \<open>A store of three rows, inserted in the order c, a, b, none of them queued yet.\<close>

definition three_rows :: "torrents_row list" where
  "three_rows =
     [example_row\<lparr>col_id := 1, col_torrent_id := ''c'', col_queue_position := - 1\<rparr>,
      example_row\<lparr>col_id := 2, col_torrent_id := ''a'', col_queue_position := - 1\<rparr>,
      example_row\<lparr>col_id := 3, col_torrent_id := ''b'', col_queue_position := - 1\<rparr>]"

text \<open>
  The \<^verbatim>\<open>double\<close> nearest to 1.001 (it is a little below), and the \<^verbatim>\<open>double\<close>
  nearest to 1000 times it, which is the \<^verbatim>\<open>double\<close> just below 1001.
\<close>

definition double_1_001 :: real where
  "double_1_001 = 2254051613498933 / 2 ^ 51"

definition product_1_001 :: real where
  "product_1_001 = 8804889115230207 / 2 ^ 43"

text \<open>A rounding gives, at \<open>x\<close>, a representable value that no other is nearer to \<open>x\<close>
  than: what round-to-nearest does.\<close>

definition nearest_at :: "(real \<Rightarrow> real) \<Rightarrow> real \<Rightarrow> bool" where
  "nearest_at r x = (is_double (r x) \<and> (\<forall>y. is_double y \<longrightarrow> \<bar>r x - x\<bar> \<le> \<bar>y - x\<bar>))"

text \<open>The example environment with the multiplication \<open>double_1_001 * 1000\<close> rounded as
  round-to-nearest rounds it.\<close>

definition rounding_env :: env where
  "rounding_env =
     example_env\<lparr>fl := (\<lambda>x. if x = double_1_001 * 1000 then product_1_001 else x)\<rparr>"

section \<open>Properties\<close>

subsection \<open>Flags\<close>

lemma bit_paused: "bit paused n = (n = 4)"
  unfolding paused_def bit_push_bit_iff by (auto simp add: bit_1_iff possible_bit_word)

lemma bit_auto_managed: "bit auto_managed n = (n = 5)"
  unfolding auto_managed_def bit_push_bit_iff by (auto simp add: bit_1_iff possible_bit_word)

lemma bit_stop_when_ready: "bit stop_when_ready n = (n = 10)"
  unfolding stop_when_ready_def bit_push_bit_iff by (auto simp add: bit_1_iff possible_bit_word)

lemma has_single_bit:
  fixes w f :: "64 word"
  assumes "\<And>n. bit f n = (n = k)"
  shows "has_flag w f = bit w k"
proof
  assume set: "has_flag w f"
  show "bit w k"
  proof (rule ccontr)
    assume "\<not> bit w k"
    then have "w AND f = 0"
      by (intro bit_eqI) (auto simp add: bit_and_iff assms)
    with set show False by (simp add: has_flag_def)
  qed
next
  assume "bit w k"
  then have "bit (w AND f) k" by (simp add: bit_and_iff assms)
  then have "w AND f \<noteq> 0" by auto
  then show "has_flag w f" by (simp add: has_flag_def)
qed

lemmas has_flag_bit =
  has_single_bit [OF bit_paused] has_single_bit [OF bit_auto_managed]
  has_single_bit [OF bit_stop_when_ready]

lemmas flag_bits =
  has_flag_bit bit_and_iff bit_or_iff bit_not_iff bit_paused bit_auto_managed bit_stop_when_ready

subsection \<open>Selecting and upserting rows\<close>

lemma set_columns_StoreJob:
  "set_columns (StoreJob_columns p) v r =
     v\<lparr>col_id := col_id r, col_queue_position := col_queue_position r,
       col_metadata := (if ti p \<noteq> None then col_metadata v else col_metadata r)\<rparr>"
  by (cases v; cases r) (simp add: set_columns_def StoreJob_columns_def)

lemma exists_iff_select:
  "(\<exists>r \<in> set rows. col_torrent_id r = ident) = (select_torrent rows ident \<noteq> None)"
  by (auto simp add: select_torrent_def find_None_iff)

lemma select_map_update:
  assumes "\<And>r. col_torrent_id r = ident \<Longrightarrow> col_torrent_id (f r) = ident"
  shows "select_torrent (map (\<lambda>r. if col_torrent_id r = ident then f r else r) rows) ident' =
         (if ident' = ident then map_option f (select_torrent rows ident)
          else select_torrent rows ident')"
  using assms by (induction rows) (auto simp add: select_torrent_def)

lemma select_append:
  "select_torrent (rows @ [r]) ident =
     (case select_torrent rows ident of
        None \<Rightarrow> (if col_torrent_id r = ident then Some r else None)
      | Some x \<Rightarrow> Some x)"
  by (induction rows) (auto simp add: select_torrent_def)

lemma select_upsert:
  assumes "\<And>r. col_torrent_id (set_columns columns v r) = col_torrent_id v"
  shows "select_torrent (upsert columns v rows) ident =
     (if ident = col_torrent_id v
      then Some (set_columns columns v
                   (case select_torrent rows ident of
                      None \<Rightarrow> default_row (next_rowid rows)
                    | Some r \<Rightarrow> r))
      else select_torrent rows ident)"
proof (cases "select_torrent rows (col_torrent_id v)")
  case None
  then show ?thesis
    by (auto simp add: upsert_def exists_iff_select select_append assms split: option.splits)
next
  case (Some r)
  then show ?thesis
    by (simp add: upsert_def exists_iff_select select_map_update assms)
qed

lemma torrent_id_StoreJob_values [simp]:
  "col_torrent_id (StoreJob_values E ident d) = ident"
  by (simp add: StoreJob_values_def Let_def)

lemma ti_StoreJob_params [simp]:
  "ti (StoreJob_params E d) = ti (ltAddTorrentParams d)"
  by (simp add: StoreJob_params_def Let_def)

text \<open>The row of an identifier after a store job that went through.\<close>

lemma select_after_store:
  assumes "StoreJob_perform E faults ident d db = (db', None)"
  shows "select_torrent (torrents db') ident' =
     (if ident' = ident
      then Some ((StoreJob_values E ident d)
             \<lparr>col_id := (case select_torrent (torrents db) ident of
                           None \<Rightarrow> next_rowid (torrents db) | Some r \<Rightarrow> col_id r),
              col_queue_position := (case select_torrent (torrents db) ident of
                           None \<Rightarrow> - 1 | Some r \<Rightarrow> col_queue_position r),
              col_metadata := (if ti (ltAddTorrentParams d) \<noteq> None
                               then col_metadata (StoreJob_values E ident d)
                               else (case select_torrent (torrents db) ident of
                                       None \<Rightarrow> None | Some r \<Rightarrow> col_metadata r))\<rparr>)
      else select_torrent (torrents db) ident')"
proof -
  from assms have db': "db' = db\<lparr>torrents := upsert (StoreJob_columns (StoreJob_params E d))
      (StoreJob_values E ident d) (torrents db)\<rparr>"
    by (auto simp add: StoreJob_perform_def Let_def split: if_splits)
  have "select_torrent (upsert (StoreJob_columns (StoreJob_params E d))
      (StoreJob_values E ident d) (torrents db)) ident' =
     (if ident' = col_torrent_id (StoreJob_values E ident d)
      then Some (set_columns (StoreJob_columns (StoreJob_params E d)) (StoreJob_values E ident d)
                   (case select_torrent (torrents db) ident' of
                      None \<Rightarrow> default_row (next_rowid (torrents db))
                    | Some r \<Rightarrow> r))
      else select_torrent (torrents db) ident')"
    by (rule select_upsert) (simp add: set_columns_StoreJob)
  then show ?thesis
    by (simp add: db' set_columns_StoreJob default_row_def split: option.splits)
qed

subsection \<open>Store job: the flags that are encoded\<close>



subsection \<open>Loading one record\<close>

lemma load_row:
  assumes "PrepareSelectTorrent \<notin> faults" "ExecSelectTorrent \<notin> faults"
  shows "load E faults db ident =
     (case select_torrent (torrents db) ident of
        None \<Rightarrow> Inl (ident, NotFound)
      | Some query \<Rightarrow> Inr (parseQueryResultRow E query))"
  using assms by (simp add: load_def)

lemma parse_legacy_flag:
  assumes "has_flag (flags (snd (read_resume_data E (snd (bdecode E (col_libtorrent_resume_data query)))))) stop_when_ready"
  shows "\<not> has_flag (flags (ltAddTorrentParams (parseQueryResultRow E query))) stop_when_ready"
    and "stopCondition (parseQueryResultRow E query) = FilesChecked"
  using assms by (simp_all add: parseQueryResultRow_def Let_def flag_bits)

lemma example_legacy:
  "has_flag (flags (snd (read_resume_data example_env (snd (bdecode example_env
           (col_libtorrent_resume_data example_row)))))) stop_when_ready"
  by (simp add: example_env_def example_row_def example_bdecode_def example_read_def
      default_params_def flag_bits)

text \<open>
  Claim C5. For every persisted row whose decoded resume blob has the legacy
  stop-when-ready flag, \<^verbatim>\<open>load\<close> returns a descriptor in which that flag is cleared and
  whose stop condition is \<^verbatim>\<open>FilesChecked\<close>, whatever the stop-condition column holds.
\<close>

theorem load_legacy_stop_when_ready:
  assumes "select_torrent (torrents db) ident = Some query"
    and "PrepareSelectTorrent \<notin> faults" and "ExecSelectTorrent \<notin> faults"
    and "has_flag (flags (snd (read_resume_data E (snd (bdecode E
           (col_libtorrent_resume_data query)))))) stop_when_ready"
  shows "\<exists>resumeData. load E faults db ident = Inr resumeData \<and>
           resumeData = parseQueryResultRow E query \<and>
           \<not> has_flag (flags (ltAddTorrentParams resumeData)) stop_when_ready \<and>
           stopCondition resumeData = FilesChecked"
  using assms by (simp add: load_row parse_legacy_flag)

theorem load_legacy_stop_when_ready_witness:
  "select_torrent (torrents (example_db [example_row])) ''a'' = Some example_row \<and>
   PrepareSelectTorrent \<notin> {} \<and> ExecSelectTorrent \<notin> {} \<and>
   has_flag (flags (snd (read_resume_data example_env (snd (bdecode example_env
           (col_libtorrent_resume_data example_row)))))) stop_when_ready \<and>
   col_stop_condition example_row = ''MetadataReceived'' \<and>
   (\<exists>resumeData. load example_env {} (example_db [example_row]) ''a'' = Inr resumeData \<and>
           resumeData = parseQueryResultRow example_env example_row \<and>
           \<not> has_flag (flags (ltAddTorrentParams resumeData)) stop_when_ready \<and>
           stopCondition resumeData = FilesChecked)"
proof -
  have sel: "select_torrent (torrents (example_db [example_row])) ''a'' = Some example_row"
    by (simp add: select_torrent_def example_db_def example_row_def)
  have col: "col_stop_condition example_row = ''MetadataReceived''"
    by (simp add: example_row_def)
  show ?thesis
    using load_legacy_stop_when_ready [OF sel _ _ example_legacy, of "{}"] sel col example_legacy
    by simp
qed

text \<open>
  Claim C2, as the code has it. When the select statement prepares and executes,
  \<^verbatim>\<open>load\<close> returns the not-found error exactly when no row has the identifier, and
  whenever a row has it \<^verbatim>\<open>load\<close> returns the record parsed from the first such row:
  the error code of the decoder is never looked at, so a blob that fails to decode
  gives a record too.
\<close>

theorem load_not_found_or_record:
  assumes "PrepareSelectTorrent \<notin> faults" and "ExecSelectTorrent \<notin> faults"
  shows "((load E faults db ident = Inl (ident, NotFound)) =
           (\<forall>r \<in> set (torrents db). col_torrent_id r \<noteq> ident)) \<and>
         ((\<exists>r \<in> set (torrents db). col_torrent_id r = ident) \<longrightarrow>
           (\<exists>query. select_torrent (torrents db) ident = Some query \<and>
              load E faults db ident = Inr (parseQueryResultRow E query)))"
proof (cases "select_torrent (torrents db) ident")
  case None
  then have "\<forall>r \<in> set (torrents db). col_torrent_id r \<noteq> ident"
    using exists_iff_select [of "torrents db" ident] by blast
  with None assms show ?thesis by (simp add: load_row)
next
  case (Some query)
  then have "\<exists>r \<in> set (torrents db). col_torrent_id r = ident"
    using exists_iff_select [of "torrents db" ident] by simp
  with Some assms show ?thesis by (auto simp add: load_row)
qed

text \<open>A row whose resume blob does not decode: \<^verbatim>\<open>load\<close> returns a record with the
  parameters the decoder falls back to.\<close>

theorem load_not_found_or_record_witness:
  "PrepareSelectTorrent \<notin> {} \<and> ExecSelectTorrent \<notin> {} \<and>
   load example_env {} (example_db [example_row]) ''b'' = Inl (''b'', NotFound) \<and>
   col_torrent_id example_row = ''a'' \<and>
   load example_env {} (example_db [example_row]) ''a'' =
     Inr (parseQueryResultRow example_env example_row)"
  using load_not_found_or_record [of "{}" example_env "example_db [example_row]" "''b''"]
    load_not_found_or_record [of "{}" example_env "example_db [example_row]" "''a''"]
  by (simp add: example_db_def example_row_def select_torrent_def)

theorem load_corrupt_blob_counterexample:
  "fst (bdecode example_env (col_libtorrent_resume_data (example_row\<lparr>col_libtorrent_resume_data := []\<rparr>))) \<noteq> 0 \<and>
   fst (read_resume_data example_env (snd (bdecode example_env [])))  \<noteq> 0 \<and>
   load example_env {} (example_db [example_row\<lparr>col_libtorrent_resume_data := []\<rparr>]) ''a'' =
     Inr \<lparr> ltAddTorrentParams =
            \<lparr> flags = 0, save_path = [], ti = Some (TorrentInfo (EStr ''m'')), lt_rest = EUndefined \<rparr>,
           name = ''old'', category = [], tags = {||}, savePath = [], downloadPath = [],
           contentLayout = Original, operatingMode = Forced, useAutoTMM = True,
           firstLastPiecePriority = False, hasFinishedStatus = False, stopped = True,
           stopCondition = MetadataReceived, ratioLimit = 0, seedingTimeLimit = 0 \<rparr>"
  by (simp add: load_def select_torrent_def example_db_def example_row_def example_env_def
      example_bdecode_def example_read_def default_params_def parseQueryResultRow_def Let_def
      has_flag_def toString_def toByteArray_def toInt_def parse_tags_def
      toEnum_ContentLayout_def toEnum_OperatingMode_def toEnum_StopCondition_def)

subsection \<open>Store job: which columns it writes\<close>

lemma StoreJob_perform_cases:
  "StoreJob_perform E faults ident d db = (db, snd (StoreJob_perform E faults ident d db)) \<and>
     snd (StoreJob_perform E faults ident d db) \<noteq> None
   \<or> StoreJob_perform E faults ident d db = (fst (StoreJob_perform E faults ident d db), None)"
  by (simp add: StoreJob_perform_def Let_def)

lemma StoreJob_perform_ok:
  assumes "BencodeMetadata \<notin> faults" "PrepareInsertTorrent \<notin> faults" "ExecInsertTorrent \<notin> faults"
  shows "StoreJob_perform E faults ident d db =
           (fst (StoreJob_perform E faults ident d db), None)"
  using assms by (simp add: StoreJob_perform_def Let_def)

lemma select_filter_remove:
  "select_torrent (filter (\<lambda>r. col_torrent_id r \<noteq> ident) rows) ident' =
     (if ident' = ident then None else select_torrent rows ident')"
  by (induction rows) (auto simp add: select_torrent_def)

lemma select_example_row:
  "select_torrent (torrents (example_db [example_row])) ''a'' = Some example_row"
  by (simp add: select_torrent_def example_db_def example_row_def)

lemma select_example_empty:
  "select_torrent (torrents (example_db [])) ident = None"
  by (simp add: select_torrent_def example_db_def)

text \<open>
  Claim C1, as the code has it. For every store job on an identifier that has a row,
  when the job's statement goes through, the row afterwards holds the values encoded from
  the new descriptor in every column of the statement's column list: all columns but
  \<^verbatim>\<open>id\<close> and \<^verbatim>\<open>queue_position\<close>, and \<^verbatim>\<open>metadata\<close> only when the descriptor
  carries content metadata. The columns that are not listed keep their value: a
  descriptor without metadata leaves the metadata column as it was.
\<close>

theorem store_replaces_listed_columns:
  assumes "select_torrent (torrents db) ident = Some r"
    and "BencodeMetadata \<notin> faults" and "PrepareInsertTorrent \<notin> faults"
    and "ExecInsertTorrent \<notin> faults"
  shows "select_torrent (torrents (fst (StoreJob_perform E faults ident d db))) ident =
           Some ((StoreJob_values E ident d)
                  \<lparr>col_id := col_id r,
                   col_queue_position := col_queue_position r,
                   col_metadata := (if ti (ltAddTorrentParams d) \<noteq> None
                                    then col_metadata (StoreJob_values E ident d)
                                    else col_metadata r)\<rparr>)"
  using select_after_store [OF StoreJob_perform_ok [OF assms(2-4)], of E ident d db ident] assms(1)
  by simp

theorem store_replaces_listed_columns_witness:
  "select_torrent (torrents (example_db [example_row])) ''a'' = Some example_row \<and>
   BencodeMetadata \<notin> {} \<and> PrepareInsertTorrent \<notin> {} \<and> ExecInsertTorrent \<notin> {} \<and>
   select_torrent (torrents (fst (StoreJob_perform example_env {} ''a'' example_descriptor
       (example_db [example_row])))) ''a'' =
     Some ((StoreJob_values example_env ''a'' example_descriptor)
            \<lparr>col_id := 1, col_queue_position := 7, col_metadata := Some ''m''\<rparr>) \<and>
   col_name (StoreJob_values example_env ''a'' example_descriptor) = Some ''T1'' \<and>
   col_stopped (StoreJob_values example_env ''a'' example_descriptor) = False"
  using store_replaces_listed_columns [OF select_example_row, of "{}" example_env example_descriptor]
    select_example_row
  by (simp add: example_row_def example_descriptor_def default_params_def StoreJob_values_def Let_def)

text \<open>A row with metadata, overwritten with a descriptor without: the bound metadata
  value is \<^verbatim>\<open>NULL\<close>, and the row keeps its metadata and its queue position.\<close>

theorem store_full_replace_counterexample:
  "ti (ltAddTorrentParams example_descriptor) = None \<and>
   col_metadata (StoreJob_values example_env ''a'' example_descriptor) = None \<and>
   map_option col_metadata
     (select_torrent (torrents (fst (StoreJob_perform example_env {} ''a'' example_descriptor
        (example_db [example_row])))) ''a'') = Some (Some ''m'') \<and>
   map_option col_queue_position
     (select_torrent (torrents (fst (StoreJob_perform example_env {} ''a'' example_descriptor
        (example_db [example_row])))) ''a'') = Some 7"
proof -
  have ok: "StoreJob_perform example_env {} ''a'' example_descriptor (example_db [example_row]) =
     (fst (StoreJob_perform example_env {} ''a'' example_descriptor (example_db [example_row])), None)"
    by (rule StoreJob_perform_ok) simp_all
  have noti: "ti (ltAddTorrentParams example_descriptor) = None"
    by (simp add: example_descriptor_def default_params_def)
  have nometa: "col_metadata (StoreJob_values example_env ''a'' example_descriptor) = None"
    by (simp add: StoreJob_values_def Let_def bencodedMetadata_def noti)
  show ?thesis
    using select_after_store [OF ok, of "''a''"] noti nometa
    by (simp add: select_example_row) (simp add: example_row_def)
qed

text \<open>
  Claim C9. A store job never writes \<^verbatim>\<open>queue_position\<close>: the row it creates for an
  identifier that had none holds the default \<open>-1\<close>, the row it overwrites keeps its queue
  position, and the rows of other identifiers are as before. A remove job changes no
  row that stays. (Whether the store job fails or not.)
\<close>

theorem store_keeps_queue_position:
  "(select_torrent (torrents db) ident = None \<and>
      snd (StoreJob_perform E faults ident d db) = None \<longrightarrow>
      map_option col_queue_position
        (select_torrent (torrents (fst (StoreJob_perform E faults ident d db))) ident) = Some (- 1)) \<and>
   (\<forall>r. select_torrent (torrents db) ident = Some r \<longrightarrow>
      map_option col_queue_position
        (select_torrent (torrents (fst (StoreJob_perform E faults ident d db))) ident)
        = Some (col_queue_position r)) \<and>
   (\<forall>ident'. ident' \<noteq> ident \<longrightarrow>
      select_torrent (torrents (fst (StoreJob_perform E faults ident d db))) ident'
        = select_torrent (torrents db) ident') \<and>
   (\<forall>ident'. select_torrent (torrents (fst (RemoveJob_perform faults ident db))) ident' = None \<or>
      select_torrent (torrents (fst (RemoveJob_perform faults ident db))) ident'
        = select_torrent (torrents db) ident')"
proof -
  let ?res = "StoreJob_perform E faults ident d db"
  have sel: "\<And>ident'. select_torrent (torrents (fst ?res)) ident' =
     (if snd ?res = None then
       (if ident' = ident
        then Some ((StoreJob_values E ident d)
             \<lparr>col_id := (case select_torrent (torrents db) ident of
                           None \<Rightarrow> next_rowid (torrents db) | Some r \<Rightarrow> col_id r),
              col_queue_position := (case select_torrent (torrents db) ident of
                           None \<Rightarrow> - 1 | Some r \<Rightarrow> col_queue_position r),
              col_metadata := (if ti (ltAddTorrentParams d) \<noteq> None
                               then col_metadata (StoreJob_values E ident d)
                               else (case select_torrent (torrents db) ident of
                                       None \<Rightarrow> None | Some r \<Rightarrow> col_metadata r))\<rparr>)
        else select_torrent (torrents db) ident')
      else select_torrent (torrents db) ident')"
  proof -
    fix ident'
    from StoreJob_perform_cases [of E faults ident d db] show "?thesis ident'"
    proof
      assume "?res = (db, snd ?res) \<and> snd ?res \<noteq> None"
      then have "fst ?res = db" "snd ?res \<noteq> None" by (metis fst_conv)+
      then show ?thesis by (simp del: not_None_eq)
    next
      assume ok: "?res = (fst ?res, None)"
      then have "snd ?res = None" by (metis snd_conv)
      with select_after_store [OF ok, of ident'] show ?thesis by simp
    qed
  qed
  have a: "select_torrent (torrents db) ident = None \<and> snd ?res = None \<longrightarrow>
      map_option col_queue_position (select_torrent (torrents (fst ?res)) ident) = Some (- 1)"
    by (simp add: sel)
  have b: "\<forall>r. select_torrent (torrents db) ident = Some r \<longrightarrow>
      map_option col_queue_position (select_torrent (torrents (fst ?res)) ident)
        = Some (col_queue_position r)"
    by (simp add: sel)
  have c: "\<forall>ident'. ident' \<noteq> ident \<longrightarrow>
      select_torrent (torrents (fst ?res)) ident' = select_torrent (torrents db) ident'"
    by (simp add: sel)
  have e: "\<forall>ident'. select_torrent (torrents (fst (RemoveJob_perform faults ident db))) ident' = None \<or>
      select_torrent (torrents (fst (RemoveJob_perform faults ident db))) ident'
        = select_torrent (torrents db) ident'"
    by (simp add: RemoveJob_perform_def select_filter_remove)
  from a b c e show ?thesis by blast
qed

theorem store_keeps_queue_position_witness:
  "select_torrent (torrents (example_db [])) ''a'' = None \<and>
   snd (StoreJob_perform example_env {} ''a'' example_descriptor (example_db [])) = None \<and>
   map_option col_queue_position
     (select_torrent (torrents (fst (StoreJob_perform example_env {} ''a'' example_descriptor
        (example_db [])))) ''a'') = Some (- 1) \<and>
   select_torrent (torrents (example_db [example_row])) ''a'' = Some example_row \<and>
   map_option col_queue_position
     (select_torrent (torrents (fst (StoreJob_perform example_env {} ''a'' example_descriptor
        (example_db [example_row])))) ''a'') = Some 7 \<and>
   ''b'' \<noteq> ''a'' \<and>
   select_torrent (torrents (fst (StoreJob_perform example_env {} ''b'' example_descriptor
        (example_db [example_row])))) ''a'' = Some example_row"
proof -
  have ok: "snd (StoreJob_perform example_env {} ''a'' example_descriptor (example_db [])) = None"
    by (simp add: StoreJob_perform_def Let_def)
  have qp: "col_queue_position example_row = 7" by (simp add: example_row_def)
  show ?thesis
    using store_keeps_queue_position [of "example_db []" "''a''" example_env "{}" example_descriptor]
      store_keeps_queue_position [of "example_db [example_row]" "''a''" example_env "{}" example_descriptor]
      store_keeps_queue_position [of "example_db [example_row]" "''b''" example_env "{}" example_descriptor]
      ok qp select_example_row select_example_empty
    by simp
qed

subsection \<open>Store, then load: the tags\<close>

lemma split_str_no_sep: "sep \<notin> set x \<Longrightarrow> split_str sep x = [x]"
  by (induction x) auto

lemma split_str_append_sep:
  "sep \<notin> set x \<Longrightarrow> split_str sep (x @ sep # rest) = x # split_str sep rest"
  by (induction x) auto

lemma split_join:
  "xs \<noteq> [] \<Longrightarrow> \<forall>x \<in> set xs. sep \<notin> set x \<Longrightarrow> split_str sep (join_str sep xs) = xs"
  by (induction sep xs rule: join_str.induct) (simp_all add: split_str_no_sep split_str_append_sep)

lemma join_str_empty: "(join_str sep xs = []) = (xs = [] \<or> xs = [[]])"
  by (induction sep xs rule: join_str.induct) simp_all

lemma sorted_list_of_fset_singleton: "sorted_list_of_fset {|x|} = [x]"
  by (simp add: sorted_list_of_fset.rep_eq)

lemma sorted_list_of_fset_eq_Nil: "(sorted_list_of_fset S = []) = (S = {||})"
  by (metis sorted_list_of_fset_simps(2) fset_of_list_simps(1) sorted_list_of_fset.rep_eq
      sorted_list_of_set.sorted_key_list_of_set_empty bot_fset.rep_eq)

lemma sorted_list_of_fset_eq_single: "(sorted_list_of_fset S = [x]) = (S = {|x|})"
  by (metis sorted_list_of_fset_simps(2) fset_of_list_simps sorted_list_of_fset_singleton)

lemma parse_bind_tags:
  assumes "\<forall>t \<in> fset ts. CHR '','' \<notin> set t" and "ts \<noteq> {|[]|}"
  shows "parse_tags (toString (bind_tags ts)) = ts"
proof (cases "ts = {||}")
  case True
  then show ?thesis by (simp add: bind_tags_def toString_def parse_tags_def)
next
  case False
  let ?xs = "sorted_list_of_fset ts"
  from False have ne: "?xs \<noteq> []" by (simp add: sorted_list_of_fset_eq_Nil)
  from assms(2) have "?xs \<noteq> [[]]" by (simp add: sorted_list_of_fset_eq_single)
  with ne have j: "join_str CHR '','' ?xs \<noteq> []" by (simp add: join_str_empty)
  from assms(1) have "\<forall>x \<in> set ?xs. CHR '','' \<notin> set x" by simp
  with ne have "split_str CHR '','' (join_str CHR '','' ?xs) = ?xs" by (rule split_join)
  with False j show ?thesis by (simp add: bind_tags_def toString_def parse_tags_def)
qed

lemma load_after_store:
  assumes "BencodeMetadata \<notin> faults" "PrepareInsertTorrent \<notin> faults" "ExecInsertTorrent \<notin> faults"
    and "PrepareSelectTorrent \<notin> faults" "ExecSelectTorrent \<notin> faults"
  shows "\<exists>query. load E faults (fst (StoreJob_perform E faults ident d db)) ident =
             Inr (parseQueryResultRow E query) \<and>
           col_tags query = col_tags (StoreJob_values E ident d) \<and>
           col_ratio_limit query = col_ratio_limit (StoreJob_values E ident d)"
proof -
  from select_after_store [OF StoreJob_perform_ok [OF assms(1-3)], of E ident d db ident]
  obtain query where q: "select_torrent (torrents (fst (StoreJob_perform E faults ident d db))) ident
      = Some query"
    and "col_tags query = col_tags (StoreJob_values E ident d)"
    and "col_ratio_limit query = col_ratio_limit (StoreJob_values E ident d)"
    by simp
  moreover from q have "load E faults (fst (StoreJob_perform E faults ident d db)) ident =
      Inr (parseQueryResultRow E query)"
    by (simp add: load_row assms(4,5))
  ultimately show ?thesis by blast
qed

lemma tags_parse: "tags (parseQueryResultRow E query) = parse_tags (toString (col_tags query))"
  by (simp add: parseQueryResultRow_def Let_def)

lemma col_tags_values: "col_tags (StoreJob_values E ident d) = bind_tags (tags d)"
  by (simp add: StoreJob_values_def Let_def)

lemma tags_after_store_load:
  assumes "BencodeMetadata \<notin> faults" "PrepareInsertTorrent \<notin> faults" "ExecInsertTorrent \<notin> faults"
    and "PrepareSelectTorrent \<notin> faults" "ExecSelectTorrent \<notin> faults"
  shows "\<exists>d'. load E faults (fst (StoreJob_perform E faults ident d db)) ident = Inr d' \<and>
           tags d' = parse_tags (toString (bind_tags (tags d)))"
  using load_after_store [OF assms, of E ident d db]
  by (auto simp add: tags_parse col_tags_values)

text \<open>
  Claim C10, as the code has it. For every descriptor whose tags hold no comma and whose
  tag set is not the set of the empty tag alone, a store job followed by \<^verbatim>\<open>load\<close>
  (both going through) returns exactly the stored tag set; the empty set is stored as
  \<^verbatim>\<open>NULL\<close>. For some descriptor with a comma in a tag the loaded set differs.
\<close>

theorem tags_round_trip:
  assumes "\<forall>t \<in> fset (tags d). CHR '','' \<notin> set t" and "tags d \<noteq> {|[]|}"
    and "BencodeMetadata \<notin> faults" "PrepareInsertTorrent \<notin> faults" "ExecInsertTorrent \<notin> faults"
    and "PrepareSelectTorrent \<notin> faults" "ExecSelectTorrent \<notin> faults"
  shows "(\<exists>d'. load E faults (fst (StoreJob_perform E faults ident d db)) ident = Inr d' \<and>
            tags d' = tags d) \<and>
         (tags d = {||} \<longrightarrow> col_tags (StoreJob_values E ident d) = None) \<and>
         (\<exists>dc d'. (\<exists>t \<in> fset (tags dc). CHR '','' \<in> set t) \<and>
            load E faults (fst (StoreJob_perform E faults ident dc db)) ident = Inr d' \<and>
            tags d' \<noteq> tags dc)"
proof -
  have a: "\<exists>d'. load E faults (fst (StoreJob_perform E faults ident d db)) ident = Inr d' \<and>
            tags d' = tags d"
    using tags_after_store_load [OF assms(3-7), of E ident d db] parse_bind_tags [OF assms(1,2)]
    by simp
  have b: "tags d = {||} \<longrightarrow> col_tags (StoreJob_values E ident d) = None"
    by (simp add: col_tags_values bind_tags_def)
  let ?dc = "d\<lparr>tags := {|''a,b''|}\<rparr>"
  have "parse_tags (toString (bind_tags {|''a,b''|})) = {|''a'', ''b''|}"
    by (simp add: bind_tags_def toString_def parse_tags_def sorted_list_of_fset_singleton)
  moreover have "{|''a'', ''b''|} \<noteq> {|''a,b''|}" by auto
  ultimately have "\<exists>d'. load E faults (fst (StoreJob_perform E faults ident ?dc db)) ident = Inr d' \<and>
            tags d' \<noteq> tags ?dc"
    using tags_after_store_load [OF assms(3-7), of E ident ?dc db] by auto
  moreover have "\<exists>t \<in> fset (tags ?dc). CHR '','' \<in> set t" by simp
  ultimately have c: "\<exists>dc d'. (\<exists>t \<in> fset (tags dc). CHR '','' \<in> set t) \<and>
            load E faults (fst (StoreJob_perform E faults ident dc db)) ident = Inr d' \<and>
            tags d' \<noteq> tags dc"
    by blast
  from a b c show ?thesis by blast
qed

theorem tags_round_trip_witness:
  "CHR '','' \<notin> set ''x'' \<and> CHR '','' \<notin> set ''y'' \<and> tags example_descriptor = {|''x'', ''y''|} \<and>
   tags example_descriptor \<noteq> {|[]|} \<and>
   BencodeMetadata \<notin> {} \<and> PrepareInsertTorrent \<notin> {} \<and> ExecInsertTorrent \<notin> {} \<and>
   PrepareSelectTorrent \<notin> {} \<and> ExecSelectTorrent \<notin> {} \<and>
   (\<exists>d'. load example_env {} (fst (StoreJob_perform example_env {} ''a'' example_descriptor
            (example_db [example_row]))) ''a'' = Inr d' \<and> tags d' = {|''x'', ''y''|})"
proof -
  have t: "tags example_descriptor = {|''x'', ''y''|}" by (simp add: example_descriptor_def)
  have h1: "\<forall>t \<in> fset (tags example_descriptor). CHR '','' \<notin> set t" by (simp add: t)
  have h2: "tags example_descriptor \<noteq> {|[]|}" by (auto simp add: t)
  show ?thesis
    using tags_round_trip [OF h1 h2, of "{}" example_env "''a''" "example_db [example_row]"] t h2
    by simp
qed

text \<open>The set of the empty tag alone holds no comma, is stored as the empty string and
  loaded as the empty set.\<close>

theorem empty_tag_counterexample:
  "tags (example_descriptor\<lparr>tags := {|[]|}\<rparr>) = {|[]|} \<and> CHR '','' \<notin> set [] \<and>
   \<not> isl (load example_env {} (fst (StoreJob_perform example_env {} ''a''
            (example_descriptor\<lparr>tags := {|[]|}\<rparr>) (example_db []))) ''a'') \<and>
   tags (projr (load example_env {} (fst (StoreJob_perform example_env {} ''a''
            (example_descriptor\<lparr>tags := {|[]|}\<rparr>) (example_db []))) ''a'')) = {||} \<and>
   {||} \<noteq> {|[] :: string|}"
proof -
  have "parse_tags (toString (bind_tags {|[]|})) = {||}"
    by (simp add: bind_tags_def toString_def parse_tags_def sorted_list_of_fset_singleton)
  then show ?thesis
    using tags_after_store_load [of "{}" example_env "''a''" "example_descriptor\<lparr>tags := {|[]|}\<rparr>" "example_db []"]
    by auto
qed

subsection \<open>Store, then load: the ratio limit\<close>

lemma is_double_of_int:
  assumes "- (2 ^ 31) \<le> k" "k < 2 ^ 31"
  shows "is_double (real_of_int k)"
proof -
  from assms have "\<bar>k\<bar> < 2 ^ 53" by simp
  then have "\<bar>k\<bar> < 2 ^ 53 \<and> - 1074 \<le> (0::int) \<and> (0::int) \<le> 971 \<and>
      real_of_int k = of_int k * 2 powi 0"
    by simp
  then show ?thesis unfolding is_double_def by blast
qed

lemma truncate_real_of_int: "truncate_real (real_of_int k) = k"
  by (simp add: truncate_real_def)

lemma toInt_in_range:
  assumes "- (2 ^ 31) \<le> k" "k < 2 ^ 31"
  shows "toInt k = k"
  using assms by (simp add: toInt_def sint_sbintrunc' signed_take_bit_int_eq_self)

lemma ratio_stored:
  assumes ex: "exact_on_doubles (fl E)"
    and k: "ratioLimit d = real_of_int k / 1000" "- (2 ^ 31) \<le> k" "k < 2 ^ 31"
  shows "col_ratio_limit (StoreJob_values E ident d) = k"
proof -
  from k(1) have "ratioLimit d * 1000 = real_of_int k" by simp
  moreover have "fl E (real_of_int k) = real_of_int k"
    using ex is_double_of_int [OF k(2,3)] by (simp add: exact_on_doubles_def)
  ultimately show ?thesis
    using k(2,3)
    by (simp add: StoreJob_values_def Let_def static_cast_int_def truncate_real_of_int)
qed

lemma ratio_loaded:
  "ratioLimit (parseQueryResultRow E query) = fl E (real_of_int (toInt (col_ratio_limit query)) / 1000)"
  by (simp add: parseQueryResultRow_def Let_def)

lemma is_double_zero: "is_double 0"
  unfolding is_double_def by (rule exI [of _ 0], rule exI [of _ 0]) simp

lemma is_double_1024th: "is_double (1 / 1024)"
  unfolding is_double_def by (rule exI [of _ 1], rule exI [of _ "- 10"]) (simp add: power_int_minus)

lemma is_double_125_128: "is_double (125 / 128)"
  unfolding is_double_def by (rule exI [of _ 125], rule exI [of _ "- 7"]) (simp add: power_int_minus)

lemma is_double_3_2: "is_double (3 / 2)"
  unfolding is_double_def by (rule exI [of _ 3], rule exI [of _ "- 1"]) (simp add: power_int_minus)

lemma ratio_stored_1024th:
  assumes ex: "exact_on_doubles (fl E)" and r: "ratioLimit d = 1 / 1024"
  shows "col_ratio_limit (StoreJob_values E ident d) = 0"
proof -
  have "ratioLimit d * 1000 = 125 / 128" by (simp add: r)
  moreover have "fl E (125 / 128) = 125 / 128"
    using ex is_double_125_128 by (simp add: exact_on_doubles_def)
  ultimately have f: "fl E (ratioLimit d * 1000) = 125 / 128" by (simp only:)
  have "col_ratio_limit (StoreJob_values E ident d) = static_cast_int E (fl E (ratioLimit d * 1000))"
    by (simp add: StoreJob_values_def Let_def)
  also have "\<dots> = static_cast_int E (125 / 128)" by (simp only: f)
  also have "\<dots> = 0" by (simp add: static_cast_int_def truncate_real_def)
  finally show ?thesis .
qed

lemma is_double_1_001: "is_double double_1_001"
  unfolding is_double_def double_1_001_def
  by (rule exI [of _ 2254051613498933], rule exI [of _ "- 51"]) (simp add: power_int_minus)

lemma is_double_product_1_001: "is_double product_1_001"
  unfolding is_double_def product_1_001_def
  by (rule exI [of _ 8804889115230207], rule exI [of _ "- 43"]) (simp add: power_int_minus)

lemma is_double_one: "is_double 1"
  unfolding is_double_def by (rule exI [of _ 1], rule exI [of _ 0]) simp

lemma double_1_001_near: "\<bar>double_1_001 - 1001 / 1000\<bar> < 1 / 2 ^ 53"
  by (simp add: double_1_001_def)

lemma product_1_001_near: "\<bar>product_1_001 - double_1_001 * 1000\<bar> = 1 / 2 ^ 48"
  by (simp add: double_1_001_def product_1_001_def)

lemma product_bounds: "1000 < double_1_001 * 1000 - 1 / 2 ^ 48" "double_1_001 * 1000 + 1 / 2 ^ 48 < 1001"
  by (simp_all add: double_1_001_def)

lemma truncate_between:
  assumes "1000 < y" "y < 1001"
  shows "truncate_real y = 1000"
proof -
  from assms have "\<lfloor>y\<rfloor> = 1000" by (simp add: floor_eq_iff)
  with assms show ?thesis by (simp add: truncate_real_def)
qed

lemma ratio_stored_1_001:
  assumes near: "nearest_at (fl E) (double_1_001 * 1000)" and r: "ratioLimit d = double_1_001"
  shows "col_ratio_limit (StoreJob_values E ident d) = 1000"
proof -
  let ?v = "double_1_001 * 1000"
  from near is_double_product_1_001 have "\<bar>fl E ?v - ?v\<bar> \<le> \<bar>product_1_001 - ?v\<bar>"
    by (simp add: nearest_at_def)
  then have "\<bar>fl E ?v - ?v\<bar> \<le> 1 / 2 ^ 48" by (simp only: product_1_001_near)
  with product_bounds have "1000 < fl E ?v" "fl E ?v < 1001" by linarith+
  then have t: "truncate_real (fl E ?v) = 1000" by (rule truncate_between)
  have "col_ratio_limit (StoreJob_values E ident d) = static_cast_int E (fl E (ratioLimit d * 1000))"
    by (simp add: StoreJob_values_def Let_def)
  also have "\<dots> = static_cast_int E (fl E ?v)" by (simp only: r)
  also have "\<dots> = 1000" by (simp add: static_cast_int_def t)
  finally show ?thesis .
qed


lemma is_double_thousandths:
  assumes "is_double (real_of_int k / 1000)"
  shows "125 dvd k"
proof -
  from assms obtain m e :: int where eq: "real_of_int k / 1000 = of_int m * 2 powi e"
    unfolding is_double_def by blast
  show ?thesis
  proof (cases "0 \<le> e")
    case True
    with eq have "real_of_int k = real_of_int (1000 * m * 2 ^ nat e)"
      by (simp add: power_int_def field_simps)
    then have "k = 1000 * m * 2 ^ nat e" by (simp only: of_int_eq_iff)
    then show ?thesis by simp
  next
    case False
    with eq have "real_of_int k / 1000 = of_int m / 2 ^ nat (- e)"
      by (simp add: power_int_def field_simps)
    then have "real_of_int (k * 2 ^ nat (- e)) = real_of_int (1000 * m)"
      by (simp add: field_simps)
    then have "k * 2 ^ nat (- e) = 1000 * m" by (simp only: of_int_eq_iff)
    then have "125 dvd k * 2 ^ nat (- e)" by simp
    moreover have "coprime (125::int) (2 ^ nat (- e))"
      by (rule coprime_power_right_iff [THEN iffD2]) simp
    ultimately show ?thesis by (simp add: coprime_dvd_mult_left_iff)
  qed
qed


text \<open>No double lies nearer to the product than the double just below 1001.\<close>

lemma no_double_nearer:
  assumes z: "is_double z"
  shows "1 / 2 ^ 48 \<le> \<bar>z - double_1_001 * 1000\<bar>"
proof (rule ccontr)
  let ?v = "double_1_001 * 1000"
  assume "\<not> 1 / 2 ^ 48 \<le> \<bar>z - ?v\<bar>"
  then have close: "\<bar>z - ?v\<bar> < 1 / 2 ^ 48" by simp
  with product_bounds have zb: "1000 < z" "z < 1001" by linarith+
  from z obtain m e :: int where m: "\<bar>m\<bar> < 2 ^ 53" and zeq: "z = of_int m * 2 powi e"
    unfolding is_double_def by blast
  have v: "?v * 2 ^ 48 = 281756451687366625" by (simp add: double_1_001_def)
  from close have "\<bar>z - ?v\<bar> * 2 ^ 48 < 1" by (simp add: field_simps)
  moreover have "\<bar>z * 2 ^ 48 - ?v * 2 ^ 48\<bar> = \<bar>z - ?v\<bar> * 2 ^ 48"
    unfolding left_diff_distrib [symmetric] abs_mult by simp
  ultimately have "\<bar>z * 2 ^ 48 - ?v * 2 ^ 48\<bar> < 1" by (simp only:)
  then have near: "\<bar>z * 2 ^ 48 - 281756451687366625\<bar> < 1" by (simp only: v)
  show False
  proof (cases "- 43 \<le> e")
    case True
    have "(2::real) powi (e + 43) = 2 powi e * 2 powi 43"
      by (rule power_int_add) simp
    moreover from True have "(2::real) powi (e + 43) = 2 ^ nat (e + 43)"
      by (simp add: power_int_nonneg_exp)
    ultimately have "(2::real) powi e * 2 ^ 43 = 2 ^ nat (e + 43)" by simp
    moreover have "z * 2 ^ 48 = of_int m * ((2::real) powi e * 2 ^ 43) * 32"
      by (simp add: zeq)
    ultimately have "z * 2 ^ 48 = real_of_int (m * 2 ^ nat (e + 43) * 32)"
      by (simp only: of_int_mult of_int_power of_int_numeral)
    with near have "\<bar>real_of_int (m * 2 ^ nat (e + 43) * 32 - 281756451687366625)\<bar> < 1"
      by simp
    then have "m * 2 ^ nat (e + 43) * 32 - 281756451687366625 = 0"
      by linarith
    then have "(281756451687366625::int) = 2 * (m * 2 ^ nat (e + 43) * 16)" by simp
    then have "(2::int) dvd 281756451687366625" by (rule dvdI)
    then show False by simp
  next
    case False
    then have "e \<le> - 44" by simp
    then have "(2::real) powi e \<le> 2 powi (- 44)" by (intro power_int_increasing) simp_all
    moreover from m have "\<bar>real_of_int m\<bar> < 2 ^ 53"
      by (metis of_int_abs of_int_less_numeral_power_cancel_iff)
    ultimately have "\<bar>real_of_int m\<bar> * 2 powi e \<le> 2 ^ 53 * 2 powi (- 44)"
      by (intro mult_mono) simp_all
    then have "\<bar>z\<bar> \<le> 512"
      by (simp add: zeq abs_mult power_int_minus)
    with zb show False by simp
  qed
qed

lemma nearest_rounding_env: "nearest_at (fl rounding_env) (double_1_001 * 1000)"
  using no_double_nearer is_double_product_1_001
  by (simp add: nearest_at_def rounding_env_def example_env_def product_1_001_near)

lemma exact_rounding_env: "exact_on_doubles (fl rounding_env)"
proof -
  have "\<not> is_double (double_1_001 * 1000)"
    using no_double_nearer [of "double_1_001 * 1000"] by auto
  then show ?thesis
    by (auto simp add: exact_on_doubles_def rounding_env_def example_env_def)
qed


lemma load_1_001:
  "\<not> isl (load rounding_env {} (fst (StoreJob_perform rounding_env {} ''a''
       (example_descriptor\<lparr>ratioLimit := double_1_001\<rparr>) (example_db []))) ''a'') \<and>
   ratioLimit (projr (load rounding_env {} (fst (StoreJob_perform rounding_env {} ''a''
       (example_descriptor\<lparr>ratioLimit := double_1_001\<rparr>) (example_db []))) ''a'')) = 1"
proof -
  let ?d = "example_descriptor\<lparr>ratioLimit := double_1_001\<rparr>"
  have r: "ratioLimit ?d = double_1_001" by simp
  have nf: "BencodeMetadata \<notin> {}" "PrepareInsertTorrent \<notin> {}" "ExecInsertTorrent \<notin> {}"
    "PrepareSelectTorrent \<notin> {}" "ExecSelectTorrent \<notin> {}" by simp_all
  from load_after_store [OF nf, of rounding_env "''a''" ?d "example_db []"]
  obtain query where l: "load rounding_env {} (fst (StoreJob_perform rounding_env {} ''a'' ?d
        (example_db []))) ''a'' = Inr (parseQueryResultRow rounding_env query)"
    and q: "col_ratio_limit query = col_ratio_limit (StoreJob_values rounding_env ''a'' ?d)"
    by blast
  from q ratio_stored_1_001 [OF nearest_rounding_env r] have "col_ratio_limit query = 1000"
    by simp
  then have "ratioLimit (parseQueryResultRow rounding_env query) = fl rounding_env 1"
    by (simp add: ratio_loaded toInt_def)
  also have "\<dots> = 1" using exact_rounding_env is_double_one by (simp add: exact_on_doubles_def)
  finally show ?thesis using l by simp
qed




subsection \<open>Bulk load: the span of the read lock\<close>

lemma observe_records:
  "observe True (map (\<lambda>q. onResumeDataLoaded (f q) (g q)) rows @ rest) =
     map (\<lambda>q. (onResumeDataLoaded (f q) (g q), True)) rows @ observe True rest"
  by (induction rows) simp_all

lemma acquisitions_records:
  "filter (\<lambda>e. e = LockForRead) (map (\<lambda>q. onResumeDataLoaded (f q) (g q)) rows) = []"
  by (induction rows) simp_all

lemma doLoadAll_cases:
  "doLoadAll E faults db = ([], Some (SqlError OpenDatabase)) \<or>
   doLoadAll E faults db = ([LockForRead, Unlock], Some (SqlError ExecSelectTorrentIDs)) \<or>
   doLoadAll E faults db =
     ([LockForRead, loadStarted (map col_torrent_id (order_by_queue_position (torrents db))), Unlock],
      Some (SqlError ExecSelectAll)) \<or>
   doLoadAll E faults db =
     ([LockForRead, loadStarted (map col_torrent_id (order_by_queue_position (torrents db)))]
      @ map (\<lambda>query. onResumeDataLoaded (col_torrent_id query) (parseQueryResultRow E query))
          (order_by_queue_position (torrents db))
      @ [Unlock, loadFinished], None)"
  by (simp add: doLoadAll_def Let_def)

text \<open>
  Claim C3, as the code has it. In every execution of \<^verbatim>\<open>doLoadAll\<close> the read lock is
  taken at most once, and the start event and every record event happen while it is held;
  in an execution that completes, the lock is released after the last record event and
  the finish event is emitted after the release, with the lock not held.
\<close>

theorem load_all_lock_span:
  "under_lock is_load_event (fst (doLoadAll E faults db)) \<and>
   acquisitions (fst (doLoadAll E faults db)) \<le> 1 \<and>
   (snd (doLoadAll E faults db) = None \<longrightarrow>
      observe False (fst (doLoadAll E faults db)) =
        [(LockForRead, False),
         (loadStarted (map col_torrent_id (order_by_queue_position (torrents db))), True)]
        @ map (\<lambda>query. (onResumeDataLoaded (col_torrent_id query) (parseQueryResultRow E query), True))
            (order_by_queue_position (torrents db))
        @ [(Unlock, True), (loadFinished, False)])"
  using doLoadAll_cases [of E faults db]
  by (elim disjE)
    (simp_all add: under_lock_def acquisitions_def observe_records acquisitions_records list_all_iff)

theorem load_all_lock_span_witness:
  "snd (doLoadAll example_env {} (example_db [])) = None \<and>
   observe False (fst (doLoadAll example_env {} (example_db []))) =
     [(LockForRead, False), (loadStarted [], True), (Unlock, True), (loadFinished, False)] \<and>
   under_lock is_load_event (fst (doLoadAll example_env {} (example_db [])))"
proof -
  have "snd (doLoadAll example_env {} (example_db [])) = None"
    by (simp add: doLoadAll_def Let_def)
  moreover have "order_by_queue_position (torrents (example_db [])) = []"
    by (simp add: order_by_queue_position_def example_db_def)
  ultimately show ?thesis
    using load_all_lock_span [of example_env "{}" "example_db []"] by simp
qed

text \<open>The empty store: the finish event is emitted with the lock not held.\<close>

theorem load_all_finish_counterexample:
  "snd (doLoadAll example_env {} (example_db [])) = None \<and>
   \<not> under_lock is_notification (fst (doLoadAll example_env {} (example_db []))) \<and>
   (loadFinished, False) \<in> set (observe False (fst (doLoadAll example_env {} (example_db []))))"
  by (simp add: doLoadAll_def Let_def under_lock_def order_by_queue_position_def example_db_def)

subsection \<open>Opening the store: the schema version\<close>

lemma then_do_Inr:
  "(then_do r f = Inr y) = (\<exists>x. r = Inr x \<and> f x = Inr y)"
  by (cases r) (simp_all add: then_do_def)

lemma exec_Inr: "(exec faults s x = Inr y) = (s \<notin> faults \<and> y = x)"
  by (auto simp add: exec_def)

lemma createDB_version:
  "createDB faults = Inr db' \<Longrightarrow> stored_version db' = Some DB_VERSION"
  by (auto simp add: createDB_def then_do_Inr exec_Inr stored_version_def)

lemma createDB_faults:
  "createDB faults = Inr db' \<Longrightarrow>
     faults \<inter> {BeginTransaction, CreateTableMeta, PrepareInsertMetaVersion, ExecInsertMetaVersion,
       CreateTableTorrents, CreateQueuePositionIndex, CommitTransaction} = {}"
  by (auto simp add: createDB_def then_do_Inr exec_Inr)

lemma add_download_path_meta: "add_download_path faults db = Inr db' \<Longrightarrow> meta db' = meta db"
  by (auto simp add: add_download_path_def split: if_splits)

lemma add_stop_condition_meta: "add_stop_condition faults db = Inr db' \<Longrightarrow> meta db' = meta db"
  by (auto simp add: add_stop_condition_def split: if_splits)

lemma update_meta_version_meta:
  "update_meta_version faults db = Inr db' \<Longrightarrow>
     length (meta db) < 2 \<and> meta db' = map (\<lambda>_. (META_VERSION, Some DB_VERSION)) (meta db)"
  by (auto simp add: update_meta_version_def then_do_Inr exec_Inr split: if_splits)

lemma updateDB_meta:
  assumes "updateDB faults v db = Inr db'"
  shows "length (meta db) < 2 \<and> meta db' = map (\<lambda>_. (META_VERSION, Some DB_VERSION)) (meta db)"
proof -
  from assms obtain db1 db2 db3 db4 where
    s1: "(if v = 1 then add_download_path faults db else Inr db) = Inr db1"
    and s2: "(if v \<le> 2 then add_stop_condition faults db1 else Inr db1) = Inr db2"
    and s3: "(if v \<le> 3 then exec faults CreateQueuePositionIndexIfNotExists
                (db2\<lparr>has_queue_position_index := True\<rparr>) else Inr db2) = Inr db3"
    and s4: "update_meta_version faults db3 = Inr db4"
    and s5: "db' = db4"
    unfolding updateDB_def then_do_Inr exec_Inr by blast
  from s1 have "meta db1 = meta db" by (auto dest: add_download_path_meta split: if_splits)
  moreover from s2 have "meta db2 = meta db1" by (auto dest: add_stop_condition_meta split: if_splits)
  moreover from s3 have "meta db3 = meta db2" by (auto simp add: exec_Inr split: if_splits)
  ultimately show ?thesis using update_meta_version_meta [OF s4] s5 by simp
qed

lemma updateDB_version:
  assumes "updateDB faults v db = Inr db'" and "meta db \<noteq> []"
  shows "stored_version db' = Some DB_VERSION"
proof -
  from updateDB_meta [OF assms(1)] assms(2) obtain row where "meta db = [row]"
    by (cases "meta db"; cases "tl (meta db)") auto
  with updateDB_meta [OF assms(1)] show ?thesis by (simp add: stored_version_def)
qed

lemma currentDBVersion_Inr:
  "currentDBVersion faults db = Inr v \<Longrightarrow> stored_version db = Some v \<and> meta db \<noteq> []"
  by (auto simp add: currentDBVersion_def then_do_Inr exec_Inr stored_version_def
      split: option.splits)

lemma dbVersion_Inr:
  "dbVersion faults db = Inr v \<Longrightarrow> (\<not> has_download_path db \<and> v = 1) \<or> stored_version db = Some v"
  by (auto simp add: dbVersion_def dest: currentDBVersion_Inr split: if_splits)

lemma open_existing:
  assumes "DBResumeDataStorage faults (Some db) = Inr db'" and "meta db \<noteq> []"
  shows "\<exists>v. dbVersion faults db = Inr v \<and> stored_version db' = Some (max v DB_VERSION)"
proof -
  from assms(1) obtain v where v: "dbVersion faults db = Inr v"
    and r: "(if v < DB_VERSION then updateDB faults v db else Inr db) = Inr db'"
    by (auto simp add: DBResumeDataStorage_def then_do_Inr)
  show ?thesis
  proof (cases "v < DB_VERSION")
    case True
    with r have "updateDB faults v db = Inr db'" by simp
    from updateDB_version [OF this assms(2)] True v show ?thesis by (simp add: max_def)
  next
    case False
    with r have "db' = db" by simp
    moreover from False have "v \<noteq> 1" by (simp add: DB_VERSION_def)
    with dbVersion_Inr [OF v] have "stored_version db = Some v" by blast
    ultimately show ?thesis using False v by (simp add: max_def)
  qed
qed

lemma not_Inr_is_Inl: "(\<forall>y. r \<noteq> Inr y) \<Longrightarrow> \<exists>e. r = Inl e"
  by (cases r) auto

lemma open_fresh:
  "DBResumeDataStorage {} None =
     Inr \<lparr> meta = [(META_VERSION, Some DB_VERSION)], has_download_path = True,
           has_stop_condition = True, has_queue_position_index = True, torrents = [] \<rparr>"
  by (simp add: DBResumeDataStorage_def createDB_def then_do_def exec_def)

lemma open_v1:
  "DBResumeDataStorage {} (Some v1_db) =
     Inr \<lparr> meta = [(META_VERSION, Some DB_VERSION)], has_download_path = True,
           has_stop_condition = True, has_queue_position_index = True,
           torrents = [example_row\<lparr>col_download_path := None, col_stop_condition := ''None''\<rparr>] \<rparr>"
  by (simp add: DBResumeDataStorage_def dbVersion_def updateDB_def then_do_def exec_def v1_db_def
      DB_VERSION_def add_download_path_def add_stop_condition_def update_meta_version_def)

text \<open>
  Claim C4, as the code has it. When the constructor returns, the stored schema version is
  \<^verbatim>\<open>DB_VERSION\<close> after a fresh creation, and for a file that was there and whose
  \<^verbatim>\<open>meta\<close> table holds a row it is the greater of \<^verbatim>\<open>DB_VERSION\<close> and the version
  the file was taken to have: a migration ends at \<^verbatim>\<open>DB_VERSION\<close>, and a file of a
  version not below \<^verbatim>\<open>DB_VERSION\<close> is left as it is. A file without the
  \<^verbatim>\<open>download_path\<close> column is taken to be version 1. An unreadable version, a failed
  creation statement and a failed migration make the constructor throw.
\<close>

theorem open_schema_version:
  "(\<forall>db'. DBResumeDataStorage faults None = Inr db' \<longrightarrow>
       stored_version db' = Some DB_VERSION) \<and>
   (\<forall>db db'. DBResumeDataStorage faults (Some db) = Inr db' \<and> meta db \<noteq> [] \<longrightarrow>
       (\<exists>v. dbVersion faults db = Inr v \<and> stored_version db' = Some (max v DB_VERSION))) \<and>
   (\<forall>db. \<not> has_download_path db \<longrightarrow> dbVersion faults db = Inr 1) \<and>
   (\<forall>db. has_download_path db \<and> stored_version db = None \<longrightarrow>
       (\<exists>e. DBResumeDataStorage faults (Some db) = Inl e)) \<and>
   (faults \<inter> {OpenDatabase, BeginTransaction, CreateTableMeta, PrepareInsertMetaVersion,
       ExecInsertMetaVersion, CreateTableTorrents, CreateQueuePositionIndex,
       CommitTransaction} \<noteq> {} \<longrightarrow>
       (\<exists>e. DBResumeDataStorage faults None = Inl e)) \<and>
   (\<forall>db v e. dbVersion faults db = Inr v \<and> v < DB_VERSION \<and> updateDB faults v db = Inl e \<longrightarrow>
       (\<exists>e'. DBResumeDataStorage faults (Some db) = Inl e'))"
proof -
  have a: "\<forall>db'. DBResumeDataStorage faults None = Inr db' \<longrightarrow>
       stored_version db' = Some DB_VERSION"
    by (auto simp add: DBResumeDataStorage_def then_do_Inr dest: createDB_version)
  have b: "\<forall>db db'. DBResumeDataStorage faults (Some db) = Inr db' \<and> meta db \<noteq> [] \<longrightarrow>
       (\<exists>v. dbVersion faults db = Inr v \<and> stored_version db' = Some (max v DB_VERSION))"
    using open_existing by blast
  have c: "\<forall>db. \<not> has_download_path db \<longrightarrow> dbVersion faults db = Inr 1"
    by (simp add: dbVersion_def)
  have d: "\<forall>db. has_download_path db \<and> stored_version db = None \<longrightarrow>
       (\<exists>e. DBResumeDataStorage faults (Some db) = Inl e)"
  proof (intro allI impI)
    fix db :: database
    assume h: "has_download_path db \<and> stored_version db = None"
    have "\<forall>y. DBResumeDataStorage faults (Some db) \<noteq> Inr y"
    proof (intro allI notI)
      fix y assume "DBResumeDataStorage faults (Some db) = Inr y"
      then obtain v where "dbVersion faults db = Inr v"
        by (auto simp add: DBResumeDataStorage_def then_do_Inr)
      with h have "currentDBVersion faults db = Inr v" by (simp add: dbVersion_def)
      from currentDBVersion_Inr [OF this] h show False by simp
    qed
    then show "\<exists>e. DBResumeDataStorage faults (Some db) = Inl e" by (rule not_Inr_is_Inl)
  qed
  have e: "faults \<inter> {OpenDatabase, BeginTransaction, CreateTableMeta, PrepareInsertMetaVersion,
       ExecInsertMetaVersion, CreateTableTorrents, CreateQueuePositionIndex,
       CommitTransaction} \<noteq> {} \<longrightarrow>
       (\<exists>e. DBResumeDataStorage faults None = Inl e)"
  proof
    assume f: "faults \<inter> {OpenDatabase, BeginTransaction, CreateTableMeta, PrepareInsertMetaVersion,
       ExecInsertMetaVersion, CreateTableTorrents, CreateQueuePositionIndex,
       CommitTransaction} \<noteq> {}"
    have "\<forall>y. DBResumeDataStorage faults None \<noteq> Inr y"
    proof (intro allI notI)
      fix y assume "DBResumeDataStorage faults None = Inr y"
      then have "OpenDatabase \<notin> faults" and "createDB faults = Inr y"
        by (auto simp add: DBResumeDataStorage_def then_do_Inr exec_Inr)
      with createDB_faults [of faults y] f show False by auto
    qed
    then show "\<exists>e. DBResumeDataStorage faults None = Inl e" by (rule not_Inr_is_Inl)
  qed
  have g: "\<forall>db v e. dbVersion faults db = Inr v \<and> v < DB_VERSION \<and> updateDB faults v db = Inl e \<longrightarrow>
       (\<exists>e'. DBResumeDataStorage faults (Some db) = Inl e')"
    by (auto simp add: DBResumeDataStorage_def then_do_def exec_def)
  from a b c d e g show ?thesis by blast
qed

theorem open_schema_version_witness:
  "DBResumeDataStorage {} None =
     Inr \<lparr> meta = [(META_VERSION, Some DB_VERSION)], has_download_path = True,
           has_stop_condition = True, has_queue_position_index = True, torrents = [] \<rparr> \<and>
   stored_version \<lparr> meta = [(META_VERSION, Some DB_VERSION)], has_download_path = True,
           has_stop_condition = True, has_queue_position_index = True, torrents = [] \<rparr>
     = Some DB_VERSION \<and>
   meta v1_db \<noteq> [] \<and> \<not> has_download_path v1_db \<and> dbVersion {} v1_db = Inr 1 \<and>
   DBResumeDataStorage {} (Some v1_db) =
     Inr \<lparr> meta = [(META_VERSION, Some DB_VERSION)], has_download_path = True,
           has_stop_condition = True, has_queue_position_index = True,
           torrents = [example_row\<lparr>col_download_path := None, col_stop_condition := ''None''\<rparr>] \<rparr> \<and>
   stored_version \<lparr> meta = [(META_VERSION, Some DB_VERSION)], has_download_path = True,
           has_stop_condition = True, has_queue_position_index = True,
           torrents = [example_row\<lparr>col_download_path := None, col_stop_condition := ''None''\<rparr>] \<rparr>
     = Some DB_VERSION \<and>
   has_download_path (example_db []\<lparr>meta := []\<rparr>) \<and>
   stored_version (example_db []\<lparr>meta := []\<rparr>) = None \<and>
   DBResumeDataStorage {} (Some (example_db []\<lparr>meta := []\<rparr>)) = Inl DatabaseCorrupted"
proof -
  have m: "meta v1_db \<noteq> []" "\<not> has_download_path v1_db" by (simp_all add: v1_db_def)
  have c: "DBResumeDataStorage {} (Some (example_db []\<lparr>meta := []\<rparr>)) = Inl DatabaseCorrupted"
    "has_download_path (example_db []\<lparr>meta := []\<rparr>)"
    "stored_version (example_db []\<lparr>meta := []\<rparr>) = None"
    by (simp_all add: DBResumeDataStorage_def dbVersion_def currentDBVersion_def then_do_def
        exec_def example_db_def stored_version_def)
  have dbv: "dbVersion {} v1_db = Inr 1" by (simp add: dbVersion_def m)
  have t: "\<forall>db db'. DBResumeDataStorage {} (Some db) = Inr db' \<and> meta db \<noteq> [] \<longrightarrow>
       (\<exists>v. dbVersion {} db = Inr v \<and> stored_version db' = Some (max v DB_VERSION))"
    using open_schema_version [of "{}"] by blast
  from t [rule_format, of v1_db, OF conjI [OF open_v1 m(1)]] dbv
  have s1: "stored_version \<lparr> meta = [(META_VERSION, Some DB_VERSION)], has_download_path = True,
           has_stop_condition = True, has_queue_position_index = True,
           torrents = [example_row\<lparr>col_download_path := None, col_stop_condition := ''None''\<rparr>] \<rparr>
     = Some DB_VERSION"
    by (auto simp add: max_def DB_VERSION_def)
  have s0: "stored_version \<lparr> meta = [(META_VERSION, Some DB_VERSION)], has_download_path = True,
           has_stop_condition = True, has_queue_position_index = True, torrents = [] \<rparr>
     = Some DB_VERSION"
    using open_schema_version [of "{}"] open_fresh by blast
  from open_fresh open_v1 m c dbv s0 s1 show ?thesis by blast
qed

text \<open>A file of version 5 is opened as it is; and a file without the
  \<^verbatim>\<open>download_path\<close> column whose \<^verbatim>\<open>meta\<close> table is empty is migrated with no
  version row to update.\<close>

theorem open_version_counterexample:
  "DBResumeDataStorage {} (Some (example_db []\<lparr>meta := [(META_VERSION, Some 5)]\<rparr>)) =
     Inr (example_db []\<lparr>meta := [(META_VERSION, Some 5)]\<rparr>) \<and>
   stored_version (example_db []\<lparr>meta := [(META_VERSION, Some 5)]\<rparr>) = Some 5 \<and>
   (5::int) \<noteq> DB_VERSION \<and>
   DBResumeDataStorage {} (Some (v1_db\<lparr>meta := []\<rparr>)) =
     Inr \<lparr> meta = [], has_download_path = True,
           has_stop_condition = True, has_queue_position_index = True,
           torrents = [example_row\<lparr>col_download_path := None, col_stop_condition := ''None''\<rparr>] \<rparr> \<and>
   stored_version \<lparr> meta = [], has_download_path = True,
           has_stop_condition = True, has_queue_position_index = True,
           torrents = [example_row\<lparr>col_download_path := None, col_stop_condition := ''None''\<rparr>] \<rparr>
     = None"
  by (simp add: DBResumeDataStorage_def dbVersion_def currentDBVersion_def updateDB_def
      then_do_def exec_def example_db_def v1_db_def stored_version_def DB_VERSION_def
      add_download_path_def add_stop_condition_def update_meta_version_def)

subsection \<open>Reorder job, then the list of identifiers\<close>

lemma store_queue_loop_no_faults:
  assumes "\<forall>n. ExecUpdateQueuePos n \<notin> faults"
  shows "store_queue_loop faults pos q rows =
     (map (\<lambda>r. r\<lparr>col_queue_position :=
                  final_position pos q (col_torrent_id r) (col_queue_position r)\<rparr>) rows, None)"
  using assms
proof (induction q arbitrary: pos rows)
  case Nil
  then show ?case by (simp add: map_idI)
next
  case (Cons t q)
  have "map (\<lambda>r. r\<lparr>col_queue_position :=
                  final_position (Suc pos) q (col_torrent_id r) (col_queue_position r)\<rparr>)
          (update_queue_position t (int pos) rows) =
        map (\<lambda>r. r\<lparr>col_queue_position :=
                  final_position pos (t # q) (col_torrent_id r) (col_queue_position r)\<rparr>) rows"
    by (simp add: update_queue_position_def)
  with Cons show ?case by simp
qed

lemma final_position_absent:
  "t \<notin> set q \<Longrightarrow> final_position pos q t old = old"
  by (induction q arbitrary: pos old) auto

lemma final_position_nth:
  "distinct q \<Longrightarrow> i < length q \<Longrightarrow> final_position pos q (q ! i) old = int (pos + i)"
proof (induction q arbitrary: pos i old)
  case Nil
  then show ?case by simp
next
  case (Cons t q)
  show ?case
  proof (cases i)
    case 0
    with Cons.prems show ?thesis by (simp add: final_position_absent)
  next
    case (Suc j)
    with Cons.prems have "j < length q" "distinct q" "q ! j \<noteq> t" by auto
    with Cons.IH [of j "Suc pos"] Suc show ?thesis by simp
  qed
qed


lemma order_after_reorder:
  fixes rows :: "torrents_row list"
  assumes dq: "distinct q" and di: "distinct (map col_torrent_id rows)"
    and eq: "set q = set (map col_torrent_id rows)"
  defines "rows' \<equiv> map (\<lambda>r. r\<lparr>col_queue_position :=
                  final_position 0 q (col_torrent_id r) (col_queue_position r)\<rparr>) rows"
  shows "map col_torrent_id (order_by_queue_position rows') = q"
proof -
  let ?n = "length q"
  let ?xs = "sort_key col_queue_position rows'"
  have ids: "map col_torrent_id rows' = map col_torrent_id rows"
    by (simp add: rows'_def comp_def)
  have A: "\<exists>i<?n. col_torrent_id r' = q ! i \<and> col_queue_position r' = int i"
    if "r' \<in> set rows'" for r'
  proof -
    from that obtain r where r: "r \<in> set rows"
      and r': "r' = r\<lparr>col_queue_position :=
                  final_position 0 q (col_torrent_id r) (col_queue_position r)\<rparr>"
      by (auto simp add: rows'_def)
    from r eq have "col_torrent_id r \<in> set q" by auto
    then obtain i where i: "i < ?n" "q ! i = col_torrent_id r"
      by (auto simp add: in_set_conv_nth)
    with final_position_nth [OF dq i(1), of 0 "col_queue_position r"] r'
    show ?thesis by auto
  qed
  have uniq: "i = k" if "i < ?n" "k < ?n" "q ! i = q ! k" for i k
    using that dq by (simp add: nth_eq_iff_index_eq)
  from di ids have di': "distinct (map col_torrent_id rows')" by simp
  then have drows: "distinct rows'" and inj_id: "inj_on col_torrent_id (set rows')"
    by (simp_all add: distinct_map)
  have inj_qp: "inj_on col_queue_position (set rows')"
  proof (rule inj_onI)
    fix r1 r2
    assume r1: "r1 \<in> set rows'" and r2: "r2 \<in> set rows'"
      and e: "col_queue_position r1 = col_queue_position r2"
    from A [OF r1] obtain i1 where i1: "i1 < ?n" "col_torrent_id r1 = q ! i1"
      "col_queue_position r1 = int i1" by blast
    from A [OF r2] obtain i2 where i2: "i2 < ?n" "col_torrent_id r2 = q ! i2"
      "col_queue_position r2 = int i2" by blast
    from e i1 i2 have "col_torrent_id r1 = col_torrent_id r2" by simp
    with inj_id r1 r2 show "r1 = r2" by (auto dest: inj_onD)
  qed
  have setqp: "set (map col_queue_position rows') = int ` {0..<?n}"
  proof (intro equalityI subsetI)
    fix x assume "x \<in> set (map col_queue_position rows')"
    then obtain r' where "r' \<in> set rows'" "x = col_queue_position r'" by auto
    with A [of r'] show "x \<in> int ` {0..<?n}" by auto
  next
    fix x assume "x \<in> int ` {0..<?n}"
    then obtain i where i: "i < ?n" "x = int i" by auto
    then have "q ! i \<in> set (map col_torrent_id rows')" using eq ids by (metis nth_mem)
    then obtain r' where r': "r' \<in> set rows'" "col_torrent_id r' = q ! i" by auto
    from A [OF r'(1)] obtain k where k: "k < ?n" "col_torrent_id r' = q ! k"
      "col_queue_position r' = int k" by blast
    from r'(2) k(2) have "q ! i = q ! k" by (rule trans [OF sym])
    with i(1) k(1) have "i = k" by (rule uniq)
    with k(3) i(2) have "col_queue_position r' = x" by (simp only:)
    with r' show "x \<in> set (map col_queue_position rows')" by auto
  qed
  have sx: "sorted (map col_queue_position ?xs)" by simp
  have dx: "distinct (map col_queue_position ?xs)"
    using drows inj_qp by (simp add: distinct_map)
  have setx: "set (map col_queue_position ?xs) = set (map int [0..<?n])"
    using setqp by simp
  have "sorted (map int [0..<?n])"
    by (simp add: sorted_map sorted_wrt_iff_nth_less)
  moreover have "distinct (map int [0..<?n])" by (simp add: distinct_map)
  ultimately have keys: "map col_queue_position ?xs = map int [0..<?n]"
    using sx dx setx by (intro sorted_distinct_set_unique)
  then have len: "length ?xs = ?n" by (metis length_map length_upt minus_nat.diff_0)
  have "col_torrent_id (?xs ! i) = q ! i" if "i < ?n" for i
  proof -
    from that len have "?xs ! i \<in> set rows'" by (metis nth_mem set_sort)
    from A [OF this] obtain k where k: "k < ?n" "col_torrent_id (?xs ! i) = q ! k"
      "col_queue_position (?xs ! i) = int k" by blast
    from keys that len have "col_queue_position (?xs ! i) = int i"
      by (metis nth_map nth_upt add_0 length_map)
    with k(3) have "k = i" by (simp only: of_nat_eq_iff)
    with k(2) show ?thesis by (simp only:)
  qed
  with len have "map col_torrent_id ?xs = q"
    by (intro nth_equalityI) simp_all
  then show ?thesis by (simp add: order_by_queue_position_def)
qed


lemma select_map_same_id:
  assumes "\<And>r. col_torrent_id (f r) = col_torrent_id r"
  shows "select_torrent (map f rows) t = map_option f (select_torrent rows t)"
  by (induction rows) (simp_all add: select_torrent_def assms)

lemma select_present:
  "t \<in> set (map col_torrent_id rows) \<Longrightarrow>
     \<exists>r. select_torrent rows t = Some r \<and> col_torrent_id r = t"
  by (induction rows) (auto simp add: select_torrent_def)

text \<open>
  Claim C7. For every store whose rows are exactly those of three distinct identifiers
  \<open>a\<close>, \<open>b\<close>, \<open>c\<close> (one row each, as the \<^verbatim>\<open>UNIQUE\<close> constraint has it), a reorder
  job with the queue \<open>[a, b, c]\<close> whose statements go through leaves each identifier's
  \<^verbatim>\<open>queue_position\<close> equal to its zero-based index in the queue, and
  \<^verbatim>\<open>registeredTorrents\<close> then returns exactly \<open>[a, b, c]\<close>.
\<close>

theorem reorder_then_list:
  assumes rows: "set (map col_torrent_id (torrents db)) = {a, b, c}"
    and uniq: "distinct (map col_torrent_id (torrents db))"
    and abc: "distinct [a, b, c]"
    and nf: "PrepareUpdateQueuePos \<notin> faults" "\<forall>n. ExecUpdateQueuePos n \<notin> faults"
      "ExecSelectTorrentIDs \<notin> faults"
  shows "snd (StoreQueueJob_perform faults [a, b, c] db) = None \<and>
     map_option col_queue_position
       (select_torrent (torrents (fst (StoreQueueJob_perform faults [a, b, c] db))) a) = Some 0 \<and>
     map_option col_queue_position
       (select_torrent (torrents (fst (StoreQueueJob_perform faults [a, b, c] db))) b) = Some 1 \<and>
     map_option col_queue_position
       (select_torrent (torrents (fst (StoreQueueJob_perform faults [a, b, c] db))) c) = Some 2 \<and>
     registeredTorrents faults (fst (StoreQueueJob_perform faults [a, b, c] db)) = Inr [a, b, c]"
proof -
  let ?f = "\<lambda>r. r\<lparr>col_queue_position :=
                  final_position 0 [a, b, c] (col_torrent_id r) (col_queue_position r)\<rparr>"
  have job: "StoreQueueJob_perform faults [a, b, c] db =
      (db\<lparr>torrents := map ?f (torrents db)\<rparr>, None)"
    unfolding StoreQueueJob_perform_def using nf(1)
    by (simp only: store_queue_loop_no_faults [OF nf(2)] if_False prod.case)
  have sel: "select_torrent (map ?f (torrents db)) t = map_option ?f (select_torrent (torrents db) t)"
    for t by (rule select_map_same_id) simp
  from rows select_present [of a "torrents db"] select_present [of b "torrents db"]
    select_present [of c "torrents db"]
  obtain ra rb rc where r: "select_torrent (torrents db) a = Some ra" "col_torrent_id ra = a"
    "select_torrent (torrents db) b = Some rb" "col_torrent_id rb = b"
    "select_torrent (torrents db) c = Some rc" "col_torrent_id rc = c"
    by auto
  have fa: "col_queue_position (?f ra) = 0" using abc r(2) by auto
  have fb: "col_queue_position (?f rb) = 1" using abc r(4) by auto
  have fc: "col_queue_position (?f rc) = 2" using abc r(6) by auto
  have pa: "map_option col_queue_position (select_torrent (map ?f (torrents db)) a) = Some 0"
    by (simp only: sel r(1) option.map fa)
  have pb: "map_option col_queue_position (select_torrent (map ?f (torrents db)) b) = Some 1"
    by (simp only: sel r(3) option.map fb)
  have pc: "map_option col_queue_position (select_torrent (map ?f (torrents db)) c) = Some 2"
    by (simp only: sel r(5) option.map fc)
  from rows have "set [a, b, c] = set (map col_torrent_id (torrents db))" by auto
  from order_after_reorder [OF abc uniq this]
  have "map col_torrent_id (order_by_queue_position (map ?f (torrents db))) = [a, b, c]" .
  then have reg: "registeredTorrents faults (db\<lparr>torrents := map ?f (torrents db)\<rparr>) = Inr [a, b, c]"
    using nf(3) by (simp add: registeredTorrents_def)
  have tor: "torrents (db\<lparr>torrents := rs\<rparr>) = rs" for rs by simp
  from pa pb pc reg show ?thesis by (simp only: job fst_conv snd_conv tor simp_thms)
qed

theorem reorder_then_list_witness:
  "set (map col_torrent_id (torrents (example_db three_rows))) = {''a'', ''b'', ''c''} \<and>
   distinct (map col_torrent_id (torrents (example_db three_rows))) \<and>
   distinct [''a'', ''b'', ''c''] \<and>
   PrepareUpdateQueuePos \<notin> {} \<and> ExecSelectTorrentIDs \<notin> {} \<and>
   map col_torrent_id (torrents (example_db three_rows)) = [''c'', ''a'', ''b''] \<and>
   registeredTorrents {} (fst (StoreQueueJob_perform {} [''a'', ''b'', ''c''] (example_db three_rows)))
     = Inr [''a'', ''b'', ''c'']"
proof -
  have ids: "map col_torrent_id (torrents (example_db three_rows)) = [''c'', ''a'', ''b'']"
    by (simp add: example_db_def three_rows_def)
  have h1: "set (map col_torrent_id (torrents (example_db three_rows))) = {''a'', ''b'', ''c''}"
    unfolding ids by auto
  have h2: "distinct (map col_torrent_id (torrents (example_db three_rows)))"
    unfolding ids by simp
  have h3: "distinct [''a'', ''b'', ''c'']" by simp
  show ?thesis
    using reorder_then_list [OF h1 h2 h3, of "{}"] h1 h2 ids by simp
qed

end
